theory Spec2Isabelle
  imports Complex_Main "HOL-Library.AList"
begin

section \<open>Data model of the authorization engine (ChallengeAuth)\<close>

text \<open>
  The engine is the class \<open>ChallengeAuth\<close>. Its JavaScript \<open>Map\<close>s are association lists in
  insertion order: \<open>Map.get\<close> is \<^const>\<open>map_of\<close>, \<open>Map.has\<close> is \<open>map_of \<noteq> None\<close>, \<open>Map.set\<close> is
  \<^const>\<open>AList.update\<close> (an existing key keeps its place, a new key goes to the end) and
  \<open>Map.delete\<close> is \<^const>\<open>AList.delete\<close>. The \<open>Set\<close> of authenticated chats is never iterated,
  so it is a HOL set. Instants are milliseconds since the epoch (\<open>Date.now()\<close>), one reading
  of the clock per operation. An ISO date string is the instant it denotes, \<open>None\<close> when
  the string is not a date (\<open>getTime()\<close> is then \<open>NaN\<close>). Console output and editor
  notifications have no effect on the state and are left out. A field whose name occurs
  in several interfaces carries a prefix here (\<open>tu_\<close>, \<open>ac_\<close>, \<open>sc_\<close>, \<open>p_\<close>), and the
  message's \<open>id\<close> is \<open>msgId\<close>.
\<close>

record PendingChallenge =
  key :: string
  expiresAt :: int
  attempts :: int

record BlockedUser =
  until :: int

record TrustedUser =
  tu_transport :: string
  tu_userId :: string
  tu_username :: string
  dmChatId :: string
  authenticatedAt :: "int option"
  lastActiveAt :: "int option"

text \<open>
  The field \<open>mode\<close> is declared as one of \<open>'all'\<close>, \<open>'mentions'\<close>, \<open>'trusted-only'\<close>, but the
  admin command \<open>enable\<close> stores the third token of the command unchecked, so at run time
  it is any string.
\<close>

record AuthorizedChannel =
  ac_transport :: string
  channelId :: string
  ac_channelName :: "string option"
  authorizedBy :: string
  authorizedAt :: int
  mode :: string

record SeenChannel =
  sc_channelId :: string
  sc_channelName :: string

record PersistedAuthData =
  p_trustedUsers :: "(string \<times> TrustedUser) list"
  version :: int

text \<open>
  The secret store holds at most one value under the engine's storage key: nothing, a
  text that \<open>JSON.parse\<close> rejects, or a document. Its \<open>get\<close> and \<open>store\<close> may reject; the
  engine catches both.
\<close>

datatype StoredValue = Unparsable | Document PersistedAuthData

record SecretStorage =
  stored :: "StoredValue option"
  getRejects :: bool
  storeRejects :: bool

record ExternalMessage =
  msgId :: string
  chatId :: string
  userId :: string
  username :: "string option"
  content :: string
  timestamp :: int
  transport :: string
  isDM :: bool
  mentionsBot :: "bool option"
  channelName :: "string option"

datatype DenyReason = NotDmAuthed | ChannelNotAuthorized | NotTrustedInChannel | NoMention

datatype ChannelAuthResult = Allowed | Denied DenyReason

datatype VerifyResult = Success | Expired | Wrong | Blocked

record ChallengeAuth =
  authenticatedChats :: "string set"
  pendingChallenges :: "(string \<times> PendingChallenge) list"
  blockedUsers :: "(string \<times> BlockedUser) list"
  trustedUsers :: "(string \<times> TrustedUser) list"
  authorizedChannels :: "(string \<times> AuthorizedChannel) list"
  seenChannels :: "(string \<times> SeenChannel) list"
  secretStorage :: "SecretStorage option"

definition STORAGE_VERSION :: int where
  "STORAGE_VERSION = 1"

definition TRUST_EXPIRY_DAYS :: real where
  "TRUST_EXPIRY_DAYS = 30"

definition CHALLENGE_EXPIRY_MS :: int where
  "CHALLENGE_EXPIRY_MS = 2 * 60 * 1000"

definition MAX_ATTEMPTS :: int where
  "MAX_ATTEMPTS = 3"

definition BLOCK_DURATION_MS :: int where
  "BLOCK_DURATION_MS = 5 * 60 * 1000"

text \<open>The engine as constructed: every collection empty, no secret store attached.\<close>

definition newChallengeAuth :: ChallengeAuth where
  "newChallengeAuth =
     \<lparr>authenticatedChats = {}, pendingChallenges = [], blockedUsers = [],
      trustedUsers = [], authorizedChannels = [], seenChannels = [],
      secretStorage = None\<rparr>"

section \<open>Keys\<close>

definition makeKey :: "string \<Rightarrow> string \<Rightarrow> string" where
  "makeKey t i = t @ '':'' @ i"

definition makeUserKey :: "string \<Rightarrow> string \<Rightarrow> string" where
  "makeUserKey t u = t @ '':'' @ u"

definition makeChannelKey :: "string \<Rightarrow> string \<Rightarrow> string" where
  "makeChannelKey t c = t @ '':'' @ c"

section \<open>Persistence\<close>

definition saveToStorage :: "ChallengeAuth \<Rightarrow> ChallengeAuth" where
  "saveToStorage s =
     (case secretStorage s of
        None \<Rightarrow> s
      | Some st \<Rightarrow>
          if storeRejects st then s
          else s\<lparr>secretStorage :=
                   Some (st\<lparr>stored :=
                     Some (Document \<lparr>p_trustedUsers = trustedUsers s,
                                     version = STORAGE_VERSION\<rparr>)\<rparr>)\<rparr>)"

text \<open>
  \<open>daysSinceActive\<close> is \<open>(now - lastActive) / (1000 * 60 * 60 * 24)\<close>, in exact
  arithmetic; it is \<open>NaN\<close> (here \<open>None\<close>) for an invalid date, and \<open>NaN > 30\<close> is false.
\<close>

definition daysSinceActive :: "int \<Rightarrow> TrustedUser \<Rightarrow> real option" where
  "daysSinceActive now user =
     (case lastActiveAt user of
        None \<Rightarrow> None
      | Some lastActive \<Rightarrow> Some (real_of_int (now - lastActive) / (1000 * 60 * 60 * 24)))"

definition trustExpired :: "int \<Rightarrow> TrustedUser \<Rightarrow> bool" where
  "trustExpired now user =
     (case daysSinceActive now user of
        None \<Rightarrow> False
      | Some d \<Rightarrow> d > TRUST_EXPIRY_DAYS)"

text \<open>
  One turn of the loop over the entries of the stored document; the state carried is the
  engine with \<open>loadedCount\<close> and \<open>expiredCount\<close>.
\<close>

definition loadEntry ::
  "int \<Rightarrow> string \<times> TrustedUser \<Rightarrow> ChallengeAuth \<times> nat \<times> nat \<Rightarrow> ChallengeAuth \<times> nat \<times> nat" where
  "loadEntry now e acc =
     (case e of (k, user) \<Rightarrow>
      case acc of (s, loadedCount, expiredCount) \<Rightarrow>
        if trustExpired now user then (s, loadedCount, expiredCount + 1)
        else (s\<lparr>trustedUsers := AList.update k user (trustedUsers s),
                authenticatedChats :=
                  insert (makeKey (tu_transport user) (dmChatId user)) (authenticatedChats s)\<rparr>,
              loadedCount + 1, expiredCount))"

definition loadFromStorage :: "int \<Rightarrow> ChallengeAuth \<Rightarrow> ChallengeAuth" where
  "loadFromStorage now s =
     (case secretStorage s of
        None \<Rightarrow> s
      | Some st \<Rightarrow>
          if getRejects st then s
          else
            (case stored st of
               None \<Rightarrow> s
             | Some Unparsable \<Rightarrow> s
             | Some (Document parsed) \<Rightarrow>
                 if version parsed \<noteq> STORAGE_VERSION then s
                 else
                   (case fold (loadEntry now) (p_trustedUsers parsed) (s, 0, 0) of
                      (s', loadedCount, expiredCount) \<Rightarrow>
                        (if expiredCount > 0 then saveToStorage s' else s'))))"

definition initialize :: "int \<Rightarrow> SecretStorage \<Rightarrow> ChallengeAuth \<Rightarrow> ChallengeAuth" where
  "initialize now st s = loadFromStorage now (s\<lparr>secretStorage := Some st\<rparr>)"

section \<open>Trusted users\<close>

definition isUserTrusted :: "string \<Rightarrow> string \<Rightarrow> ChallengeAuth \<Rightarrow> bool" where
  "isUserTrusted t u s = (map_of (trustedUsers s) (makeUserKey t u) \<noteq> None)"

definition getTrustedUser :: "string \<Rightarrow> string \<Rightarrow> ChallengeAuth \<Rightarrow> TrustedUser option" where
  "getTrustedUser t u s = map_of (trustedUsers s) (makeUserKey t u)"

definition trustUser ::
  "int \<Rightarrow> string \<Rightarrow> string \<Rightarrow> string \<Rightarrow> string \<Rightarrow> ChallengeAuth \<Rightarrow> ChallengeAuth" where
  "trustUser now t u uname dm s =
     saveToStorage
       (s\<lparr>trustedUsers :=
            AList.update (makeUserKey t u)
              \<lparr>tu_transport = t, tu_userId = u, tu_username = uname, dmChatId = dm,
               authenticatedAt = Some now, lastActiveAt = Some now\<rparr>
              (trustedUsers s)\<rparr>)"

definition touchUser :: "int \<Rightarrow> string \<Rightarrow> string \<Rightarrow> ChallengeAuth \<Rightarrow> ChallengeAuth" where
  "touchUser now t u s =
     (case map_of (trustedUsers s) (makeUserKey t u) of
        None \<Rightarrow> s
      | Some user \<Rightarrow>
          s\<lparr>trustedUsers :=
               AList.update (makeUserKey t u) (user\<lparr>lastActiveAt := Some now\<rparr>) (trustedUsers s)\<rparr>)"

text \<open>
  The cascade of \<open>untrustUser\<close>: the loop visits every entry of the channel map and deletes
  the entries authorized by the given user key.
\<close>

definition revokeStep ::
  "string \<Rightarrow> string \<times> AuthorizedChannel \<Rightarrow> (string \<times> AuthorizedChannel) list
     \<Rightarrow> (string \<times> AuthorizedChannel) list" where
  "revokeStep k e chans =
     (case e of (channelKey, channel) \<Rightarrow>
        if authorizedBy channel = k then AList.delete channelKey chans else chans)"

definition untrustUser :: "string \<Rightarrow> string \<Rightarrow> ChallengeAuth \<Rightarrow> bool \<times> ChallengeAuth" where
  "untrustUser t u s =
     (let k = makeUserKey t u in
      case map_of (trustedUsers s) k of
        None \<Rightarrow> (False, s)
      | Some user \<Rightarrow>
          (True,
           saveToStorage
             (s\<lparr>authorizedChannels :=
                  fold (revokeStep k) (authorizedChannels s) (authorizedChannels s),
                authenticatedChats := authenticatedChats s - {makeKey t (dmChatId user)},
                trustedUsers := AList.delete k (trustedUsers s)\<rparr>)))"

text \<open>\<open>getAllTrustedUsers(transport?)\<close>: an absent or empty transport selects every user.\<close>

definition getAllTrustedUsers :: "string option \<Rightarrow> ChallengeAuth \<Rightarrow> TrustedUser list" where
  "getAllTrustedUsers topt s =
     (let users = map snd (trustedUsers s) in
      case topt of
        None \<Rightarrow> users
      | Some t \<Rightarrow> if t \<noteq> [] then filter (\<lambda>u. tu_transport u = t) users else users)"

section \<open>Channel authorization\<close>

definition authorizeChannel ::
  "int \<Rightarrow> string \<Rightarrow> string \<Rightarrow> string \<Rightarrow> string option \<Rightarrow> string \<Rightarrow> ChallengeAuth
     \<Rightarrow> bool \<times> ChallengeAuth" where
  "authorizeChannel now t cid byUser cname m s =
     (let userKey = makeUserKey t byUser in
      if map_of (trustedUsers s) userKey = None then (False, s)
      else
        (True,
         s\<lparr>authorizedChannels :=
              AList.update (makeChannelKey t cid)
                \<lparr>ac_transport = t, channelId = cid, ac_channelName = cname,
                 authorizedBy = userKey, authorizedAt = now, mode = m\<rparr>
                (authorizedChannels s)\<rparr>))"

definition revokeChannel :: "string \<Rightarrow> string \<Rightarrow> string \<Rightarrow> ChallengeAuth \<Rightarrow> bool \<times> ChallengeAuth" where
  "revokeChannel t cid byUser s =
     (let channelKey = makeChannelKey t cid in
      case map_of (authorizedChannels s) channelKey of
        None \<Rightarrow> (False, s)
      | Some channel \<Rightarrow>
          if map_of (trustedUsers s) (makeUserKey t byUser) = None then (False, s)
          else (True, s\<lparr>authorizedChannels := AList.delete channelKey (authorizedChannels s)\<rparr>))"

definition isChannelAuthorized :: "string \<Rightarrow> string \<Rightarrow> ChallengeAuth \<Rightarrow> bool" where
  "isChannelAuthorized t cid s = (map_of (authorizedChannels s) (makeChannelKey t cid) \<noteq> None)"

definition getChannelAuth :: "string \<Rightarrow> string \<Rightarrow> ChallengeAuth \<Rightarrow> AuthorizedChannel option" where
  "getChannelAuth t cid s = map_of (authorizedChannels s) (makeChannelKey t cid)"

definition getAuthorizedChannels :: "string \<Rightarrow> ChallengeAuth \<Rightarrow> AuthorizedChannel list" where
  "getAuthorizedChannels t s = filter (\<lambda>c. ac_transport c = t) (map snd (authorizedChannels s))"

section \<open>Permission check and chat-based authentication\<close>

definition isAuthenticated :: "string \<Rightarrow> string \<Rightarrow> ChallengeAuth \<Rightarrow> bool" where
  "isAuthenticated t c s = (makeKey t c \<in> authenticatedChats s)"

text \<open>\<open>mentionsBot\<close> is optional; an absent value is falsy.\<close>

definition canRespondTo :: "ExternalMessage \<Rightarrow> ChallengeAuth \<Rightarrow> ChannelAuthResult" where
  "canRespondTo msg s =
     (if isDM msg then
        (let chatAuthed = isAuthenticated (transport msg) (chatId msg) s;
             userTrusted = isUserTrusted (transport msg) (userId msg) s
         in if chatAuthed \<or> userTrusted then Allowed else Denied NotDmAuthed)
      else
        case getChannelAuth (transport msg) (chatId msg) s of
          None \<Rightarrow> Denied ChannelNotAuthorized
        | Some channelAuth \<Rightarrow>
            (let userTrusted = isUserTrusted (transport msg) (userId msg) s in
             if mode channelAuth = ''all'' then Allowed
             else if mode channelAuth = ''trusted-only'' then
               (if userTrusted then Allowed else Denied NotTrustedInChannel)
             else
               (if userTrusted \<or> mentionsBot msg = Some True then Allowed
                else Denied NoMention)))"

definition isBlocked :: "int \<Rightarrow> string \<Rightarrow> string \<Rightarrow> ChallengeAuth \<Rightarrow> bool \<times> ChallengeAuth" where
  "isBlocked now t c s =
     (let k = makeKey t c in
      case map_of (blockedUsers s) k of
        None \<Rightarrow> (False, s)
      | Some blocked \<Rightarrow>
          if now > until blocked
          then (False, s\<lparr>blockedUsers := AList.delete k (blockedUsers s)\<rparr>)
          else (True, s))"

text \<open>
  \<open>Math.ceil((blocked.until - Date.now()) / 1000 / 60)\<close>, in exact arithmetic. The method
  does not change the engine.
\<close>

definition getBlockTimeRemaining :: "int \<Rightarrow> string \<Rightarrow> string \<Rightarrow> ChallengeAuth \<Rightarrow> int" where
  "getBlockTimeRemaining now t c s =
     (case map_of (blockedUsers s) (makeKey t c) of
        None \<Rightarrow> 0
      | Some blocked \<Rightarrow> \<lceil>real_of_int (until blocked - now) / 1000 / 60\<rceil>)"

definition hasPendingChallenge :: "int \<Rightarrow> string \<Rightarrow> string \<Rightarrow> ChallengeAuth \<Rightarrow> bool \<times> ChallengeAuth" where
  "hasPendingChallenge now t c s =
     (let k = makeKey t c in
      case map_of (pendingChallenges s) k of
        None \<Rightarrow> (False, s)
      | Some challenge \<Rightarrow>
          if now > expiresAt challenge
          then (False, s\<lparr>pendingChallenges := AList.delete k (pendingChallenges s)\<rparr>)
          else (True, s))"

text \<open>
  \<open>createChallenge\<close> draws its code from \<open>generateCode\<close>, which reads the random number
  generator; the code drawn is the argument \<open>code\<close>.
\<close>

definition createChallenge ::
  "int \<Rightarrow> string \<Rightarrow> string \<Rightarrow> string \<Rightarrow> string \<Rightarrow> ChallengeAuth \<Rightarrow> string \<times> ChallengeAuth" where
  "createChallenge now code t c uname s =
     (code,
      s\<lparr>pendingChallenges :=
           AList.update (makeKey t c)
             \<lparr>key = code, expiresAt = now + CHALLENGE_EXPIRY_MS, attempts = 0\<rparr>
             (pendingChallenges s)\<rparr>)"

definition verifyChallenge ::
  "int \<Rightarrow> string \<Rightarrow> string \<Rightarrow> string \<Rightarrow> string \<Rightarrow> string \<Rightarrow> bool \<Rightarrow> ChallengeAuth
     \<Rightarrow> VerifyResult \<times> ChallengeAuth" where
  "verifyChallenge now t c response u uname dm s =
     (let k = makeKey t c in
      case map_of (pendingChallenges s) k of
        None \<Rightarrow> (Expired, s)
      | Some challenge \<Rightarrow>
          if now > expiresAt challenge
          then (Expired, s\<lparr>pendingChallenges := AList.delete k (pendingChallenges s)\<rparr>)
          else if response = key challenge then
            (let s1 = s\<lparr>pendingChallenges := AList.delete k (pendingChallenges s),
                        authenticatedChats := insert k (authenticatedChats s)\<rparr>
             in (Success, if dm then trustUser now t u uname c s1 else s1))
          else
            (let challenge' = challenge\<lparr>attempts := attempts challenge + 1\<rparr>;
                 s1 = s\<lparr>pendingChallenges := AList.update k challenge' (pendingChallenges s)\<rparr>;
                 remaining = MAX_ATTEMPTS - attempts challenge'
             in if remaining \<le> 0
                then (Blocked,
                      s1\<lparr>pendingChallenges := AList.delete k (pendingChallenges s1),
                         blockedUsers :=
                           AList.update k \<lparr>until = now + BLOCK_DURATION_MS\<rparr> (blockedUsers s1)\<rparr>)
                else (Wrong, s1)))"

definition getAttemptsRemaining :: "string \<Rightarrow> string \<Rightarrow> ChallengeAuth \<Rightarrow> int" where
  "getAttemptsRemaining t c s =
     (case map_of (pendingChallenges s) (makeKey t c) of
        None \<Rightarrow> 0
      | Some challenge \<Rightarrow> MAX_ATTEMPTS - attempts challenge)"

definition clearOnConnect :: "ChallengeAuth \<Rightarrow> ChallengeAuth" where
  "clearOnConnect s = s\<lparr>blockedUsers := [], pendingChallenges := []\<rparr>"

definition reset :: "ChallengeAuth \<Rightarrow> ChallengeAuth" where
  "reset s = s\<lparr>authenticatedChats := {}, pendingChallenges := [], blockedUsers := [],
               trustedUsers := [], authorizedChannels := []\<rparr>"

section \<open>Strings as the router reads them\<close>

text \<open>
  Strings are lists of characters. \<open>trim\<close>, \<open>toLowerCase\<close> and the classes \<open>\s\<close> and \<open>\d\<close>
  are modelled on ASCII: white space is tab, line feed, vertical tab, form feed, carriage
  return and space; only \<open>A\<close> to \<open>Z\<close> change case.
\<close>

definition isSpace :: "char \<Rightarrow> bool" where
  "isSpace c = (c \<in> {CHR 0x09, CHR 0x0A, CHR 0x0B, CHR 0x0C, CHR 0x0D, CHR '' ''})"

definition isDigit :: "char \<Rightarrow> bool" where
  "isDigit c = (c \<in> set ''0123456789'')"

definition toLowerChar :: "char \<Rightarrow> char" where
  "toLowerChar c =
     (let n = (of_char c :: nat) in if 65 \<le> n \<and> n \<le> 90 then char_of (n + 32) else c)"

definition toLowerCase :: "string \<Rightarrow> string" where
  "toLowerCase str = map toLowerChar str"

definition trim :: "string \<Rightarrow> string" where
  "trim str = rev (dropWhile isSpace (rev (dropWhile isSpace str)))"

text \<open>\<open>/^\d+$/.test(input)\<close>: one digit or more and nothing else.\<close>

definition isNumeric :: "string \<Rightarrow> bool" where
  "isNumeric input = (input \<noteq> [] \<and> list_all isDigit input)"

text \<open>
  \<open>str.split(/\s+/)\<close>: the pieces between maximal runs of white space; a leading or a
  trailing run leaves an empty piece, and the empty string gives one empty piece. The
  flag says that the scan is inside a run, \<open>cur\<close> is the current piece reversed.
\<close>

fun splitWsFrom :: "bool \<Rightarrow> string \<Rightarrow> string \<Rightarrow> string list" where
  "splitWsFrom inRun cur [] = [rev cur]"
| "splitWsFrom inRun cur (c # cs) =
     (if isSpace c then
        (if inRun then splitWsFrom True cur cs else rev cur # splitWsFrom True [] cs)
      else splitWsFrom False (c # cur) cs)"

definition splitWs :: "string \<Rightarrow> string list" where
  "splitWs str = splitWsFrom False [] str"

text \<open>\<open>str.replace(/^#/, '')\<close> and \<open>str.replace(/^@/, '')\<close>: drop one leading character.\<close>

definition stripLeading :: "char \<Rightarrow> string \<Rightarrow> string" where
  "stripLeading ch str = (case str of [] \<Rightarrow> [] | c # cs \<Rightarrow> if c = ch then cs else str)"

fun startsWith :: "string \<Rightarrow> string \<Rightarrow> bool" where
  "startsWith str [] = True"
| "startsWith [] (p # ps) = False"
| "startsWith (c # cs) (p # ps) = (c = p \<and> startsWith cs ps)"

fun includesStr :: "string \<Rightarrow> string \<Rightarrow> bool" where
  "includesStr [] sub = (sub = [])"
| "includesStr (c # cs) sub = (startsWith (c # cs) sub \<or> includesStr cs sub)"

text \<open>\<open>parts.join(' ')\<close>.\<close>

fun joinSpace :: "string list \<Rightarrow> string" where
  "joinSpace [] = []"
| "joinSpace [p] = p"
| "joinSpace (p # q # ps) = p @ '' '' @ joinSpace (q # ps)"

section \<open>Channel discovery\<close>

definition trackChannel :: "string \<Rightarrow> string \<Rightarrow> string option \<Rightarrow> ChallengeAuth \<Rightarrow> ChallengeAuth" where
  "trackChannel t cid cname s =
     (case cname of
        None \<Rightarrow> s
      | Some n \<Rightarrow>
          if n = [] then s
          else s\<lparr>seenChannels :=
                   AList.update (makeKey t (toLowerCase n))
                     \<lparr>sc_channelId = cid, sc_channelName = n\<rparr> (seenChannels s)\<rparr>)"

definition findChannelByName :: "string \<Rightarrow> string \<Rightarrow> ChallengeAuth \<Rightarrow> SeenChannel option" where
  "findChannelByName t cname s =
     (case map_of (seenChannels s) (makeKey t (toLowerCase cname)) of
        Some channel \<Rightarrow> Some channel
      | None \<Rightarrow>
          map_option snd
            (find (\<lambda>e. startsWith (fst e) (t @ '':'')
                        \<and> includesStr (toLowerCase (sc_channelName (snd e))) (toLowerCase cname))
               (seenChannels s)))"

section \<open>The message router (TransportManager)\<close>

text \<open>
  The router works on the engine singleton, the names of the registered transports, the
  message queue and the resolver of the waiting consumer. A promise handed to the consumer
  is known by a number. Two logs record what leaves the router: the calls of
  \<open>sendMessage\<close> on a transport (transport, chat, text) and the promises resolved. The fixed
  texts of the replies are the constructors of \<open>Reply\<close>, with the values spliced into them.
  A send is the last action on every path, so a send that fails changes nothing further.
\<close>

datatype Reply =
    ChannelEnabled string string
  | ChannelEnabledNotSeen string string
  | ChannelDisabled string
  | ChannelWasNotEnabled string
  | NoChannelsEnabled
  | EnabledChannels "(string \<times> string) list"
  | NoTrustedUsers
  | TrustedUsersList "(string \<times> int option) list"
  | UserNotFound string
  | CannotRevokeSelf
  | UserNoLongerTrusted string
  | RevokeFailed string
  | AdminHelp
  | TooManyAttempts int
  | SixDigitReminder
  | AuthenticatedWelcome
  | ChallengeExpired
  | BlockedFiveMinutes
  | WrongCode int
  | AuthenticationRequired

record TransportManager =
  challengeAuth :: ChallengeAuth
  transports :: "string list"
  messageQueue :: "ExternalMessage list"
  waitingResolver :: "nat option"
  sent :: "(string \<times> string \<times> Reply) list"
  resolved :: "(nat \<times> ExternalMessage) list"

definition newTransportManager :: TransportManager where
  "newTransportManager =
     \<lparr>challengeAuth = newChallengeAuth, transports = [], messageQueue = [],
      waitingResolver = None, sent = [], resolved = []\<rparr>"

definition register :: "string \<Rightarrow> TransportManager \<Rightarrow> TransportManager" where
  "register name r =
     (if name \<in> set (transports r) then r else r\<lparr>transports := transports r @ [name]\<rparr>)"

definition sendMessage :: "string \<Rightarrow> string \<Rightarrow> Reply \<Rightarrow> TransportManager \<Rightarrow> TransportManager" where
  "sendMessage t c text r = r\<lparr>sent := sent r @ [(t, c, text)]\<rparr>"

text \<open>
  The hand-over that \<open>handleMessage\<close> performs for a message that is to reach the consumer:
  resolve the waiting promise and clear the resolver, or push the message on the queue.
\<close>

definition deliver :: "ExternalMessage \<Rightarrow> TransportManager \<Rightarrow> TransportManager" where
  "deliver msg r =
     (case waitingResolver r of
        Some p \<Rightarrow> r\<lparr>resolved := resolved r @ [(p, msg)], waitingResolver := None\<rparr>
      | None \<Rightarrow> r\<lparr>messageQueue := messageQueue r @ [msg]\<rparr>)"

text \<open>
  \<open>waitForMessage\<close> returns the head of the queue, or a new promise \<open>p\<close> whose resolver it
  registers (the result \<open>None\<close>). Cancelling clears the registration.
\<close>

definition waitForMessage :: "nat \<Rightarrow> TransportManager \<Rightarrow> ExternalMessage option \<times> TransportManager" where
  "waitForMessage p r =
     (case messageQueue r of
        m # rest \<Rightarrow> (Some m, r\<lparr>messageQueue := rest\<rparr>)
      | [] \<Rightarrow> (None, r\<lparr>waitingResolver := Some p\<rparr>))"

definition cancelWait :: "TransportManager \<Rightarrow> TransportManager" where
  "cancelWait r = r\<lparr>waitingResolver := None\<rparr>"

text \<open>
  The consumer calls \<open>waitForMessage\<close> again and again; \<open>waitForMessages\<close> is a run of such
  calls, one promise number for each, with the results in order.
\<close>

fun waitForMessages :: "nat list \<Rightarrow> TransportManager \<Rightarrow> ExternalMessage option list \<times> TransportManager" where
  "waitForMessages [] r = ([], r)"
| "waitForMessages (p # ps) r =
     (case waitForMessage p r of
        (res, r') \<Rightarrow> (case waitForMessages ps r' of (rs, r'') \<Rightarrow> (res # rs, r'')))"

definition orElse :: "string \<Rightarrow> string \<Rightarrow> string" where
  "orElse a b = (if a \<noteq> [] then a else b)"

definition handleAdminCommand :: "int \<Rightarrow> ExternalMessage \<Rightarrow> TransportManager \<Rightarrow> bool \<times> TransportManager" where
  "handleAdminCommand now msg r =
     (if \<not> isDM msg then (False, r)
      else case getTrustedUser (transport msg) (userId msg) (challengeAuth r) of
        None \<Rightarrow> (False, r)
      | Some trusted \<Rightarrow>
         (case splitWs (toLowerCase (trim (content msg))) of
            [] \<Rightarrow> (False, r)
          | command # args \<Rightarrow>
             if command = ''enable'' \<and> args \<noteq> [] then
               (let channelRef = stripLeading (CHR ''#'') (hd args);
                    m = (case tl args of [] \<Rightarrow> ''mentions'' | a # _ \<Rightarrow> orElse a ''mentions'');
                    foundChannel = findChannelByName (transport msg) channelRef (challengeAuth r);
                    cid = (case foundChannel of
                             None \<Rightarrow> channelRef | Some f \<Rightarrow> orElse (sc_channelId f) channelRef);
                    cname = (case foundChannel of
                               None \<Rightarrow> channelRef | Some f \<Rightarrow> orElse (sc_channelName f) channelRef);
                    a' = snd (authorizeChannel now (transport msg) cid (userId msg) (Some cname) m
                                (challengeAuth r))
                in (True,
                    sendMessage (transport msg) (chatId msg)
                      (case foundChannel of
                         Some f \<Rightarrow> ChannelEnabled cname m
                       | None \<Rightarrow> ChannelEnabledNotSeen channelRef m)
                      (r\<lparr>challengeAuth := a'\<rparr>)))
             else if command = ''disable'' \<and> args \<noteq> [] then
               (let channelRef = stripLeading (CHR ''#'') (joinSpace args) in
                case revokeChannel (transport msg) channelRef (userId msg) (challengeAuth r) of
                  (ok, a') \<Rightarrow>
                    (True,
                     sendMessage (transport msg) (chatId msg)
                       (if ok then ChannelDisabled channelRef else ChannelWasNotEnabled channelRef)
                       (r\<lparr>challengeAuth := a'\<rparr>)))
             else if command = ''channels'' \<or> command = ''list'' then
               (let channels = getAuthorizedChannels (transport msg) (challengeAuth r) in
                (True,
                 sendMessage (transport msg) (chatId msg)
                   (if channels = [] then NoChannelsEnabled
                    else EnabledChannels
                           (map (\<lambda>c. (case ac_channelName c of
                                         None \<Rightarrow> channelId c
                                       | Some n \<Rightarrow> orElse n (channelId c),
                                       mode c)) channels))
                   r))
             else if command = ''trusted'' then
               (let users = getAllTrustedUsers (Some (transport msg)) (challengeAuth r) in
                (True,
                 sendMessage (transport msg) (chatId msg)
                   (if users = [] then NoTrustedUsers
                    else TrustedUsersList (map (\<lambda>u. (tu_username u, authenticatedAt u)) users))
                   r))
             else if command = ''revoke'' \<and> args \<noteq> [] then
               (let userRef = stripLeading (CHR ''@'') (hd args);
                    users = getAllTrustedUsers (Some (transport msg)) (challengeAuth r)
                in case find (\<lambda>u. toLowerCase (tu_username u) = toLowerCase userRef
                                   \<or> tu_userId u = userRef) users of
                     None \<Rightarrow>
                       (True, sendMessage (transport msg) (chatId msg) (UserNotFound userRef) r)
                   | Some targetUser \<Rightarrow>
                       if tu_userId targetUser = userId msg then
                         (True, sendMessage (transport msg) (chatId msg) CannotRevokeSelf r)
                       else
                         (case untrustUser (transport msg) (tu_userId targetUser) (challengeAuth r) of
                            (ok, a') \<Rightarrow>
                              (True,
                               sendMessage (transport msg) (chatId msg)
                                 (if ok then UserNoLongerTrusted (tu_username targetUser)
                                  else RevokeFailed userRef)
                                 (r\<lparr>challengeAuth := a'\<rparr>))))
             else if command = ''help'' then
               (True, sendMessage (transport msg) (chatId msg) AdminHelp r)
             else (False, r)))"

text \<open>
  \<open>handleMessage\<close>, for one reading \<open>now\<close> of the clock; \<open>code\<close> is the code that
  \<open>generateCode\<close> draws if the message starts a challenge.
\<close>

definition handleMessage :: "int \<Rightarrow> string \<Rightarrow> ExternalMessage \<Rightarrow> TransportManager \<Rightarrow> TransportManager" where
  "handleMessage now code msg r =
     (if transport msg \<notin> set (transports r) then r
      else
        (let uname = (case username msg of None \<Rightarrow> chatId msg | Some n \<Rightarrow> orElse n (chatId msg)) in
         case isBlocked now (transport msg) (chatId msg) (challengeAuth r) of
           (blocked, a1) \<Rightarrow>
             if blocked then
               sendMessage (transport msg) (chatId msg)
                 (TooManyAttempts (getBlockTimeRemaining now (transport msg) (chatId msg) a1))
                 (r\<lparr>challengeAuth := a1\<rparr>)
             else if isDM msg \<and> isAuthenticated (transport msg) (chatId msg) a1 then
               (case handleAdminCommand now msg (r\<lparr>challengeAuth := a1\<rparr>) of
                  (wasCommand, r2) \<Rightarrow> if wasCommand then r2 else deliver msg r2)
             else if \<not> isDM msg then
               (let a2 = trackChannel (transport msg) (chatId msg) (channelName msg) a1 in
                if canRespondTo msg a2 \<noteq> Allowed then r\<lparr>challengeAuth := a2\<rparr>
                else deliver msg (r\<lparr>challengeAuth := a2\<rparr>))
             else
               (case hasPendingChallenge now (transport msg) (chatId msg) a1 of
                  (pending, a2) \<Rightarrow>
                    if pending then
                      (let input = trim (content msg) in
                       if \<not> isNumeric input then r\<lparr>challengeAuth := a2\<rparr>
                       else if length input = 5 \<or> length input = 7 then
                         sendMessage (transport msg) (chatId msg) SixDigitReminder
                           (r\<lparr>challengeAuth := a2\<rparr>)
                       else if length input \<noteq> 6 then r\<lparr>challengeAuth := a2\<rparr>
                       else
                         (case verifyChallenge now (transport msg) (chatId msg) input
                                 (userId msg) uname (isDM msg) a2 of
                            (result, a3) \<Rightarrow>
                              sendMessage (transport msg) (chatId msg)
                                (case result of
                                   Success \<Rightarrow> AuthenticatedWelcome
                                 | Expired \<Rightarrow> ChallengeExpired
                                 | Blocked \<Rightarrow> BlockedFiveMinutes
                                 | Wrong \<Rightarrow>
                                     WrongCode
                                       (getAttemptsRemaining (transport msg) (chatId msg) a3))
                                (r\<lparr>challengeAuth := a3\<rparr>)))
                    else
                      sendMessage (transport msg) (chatId msg) AuthenticationRequired
                        (r\<lparr>challengeAuth :=
                             snd (createChallenge now code (transport msg) (chatId msg) uname a2)\<rparr>))))"

section \<open>Example states\<close>

text \<open>
  A small engine used to run the operations on concrete inputs: Alice and Bob are trusted
  on Telegram, Alice's chat is authenticated, three channels are authorized, one in each
  mode, and a secret store is attached.
\<close>

definition exampleUser :: "string \<Rightarrow> string \<Rightarrow> string \<Rightarrow> int \<Rightarrow> TrustedUser" where
  "exampleUser u uname dm active =
     \<lparr>tu_transport = ''telegram'', tu_userId = u, tu_username = uname, dmChatId = dm,
      authenticatedAt = Some 0, lastActiveAt = Some active\<rparr>"

definition exampleChannel :: "string \<Rightarrow> string \<Rightarrow> string \<Rightarrow> AuthorizedChannel" where
  "exampleChannel cid byKey m =
     \<lparr>ac_transport = ''telegram'', channelId = cid, ac_channelName = Some cid,
      authorizedBy = byKey, authorizedAt = 0, mode = m\<rparr>"

definition exampleStore :: SecretStorage where
  "exampleStore = \<lparr>stored = None, getRejects = False, storeRejects = False\<rparr>"

definition exampleAuth :: ChallengeAuth where
  "exampleAuth =
     \<lparr>authenticatedChats = {''telegram:dm1''},
      pendingChallenges = [],
      blockedUsers = [],
      trustedUsers =
        [(''telegram:alice'', exampleUser ''alice'' ''Alice'' ''dm1'' 0),
         (''telegram:bob'', exampleUser ''bob'' ''Bob'' ''dm2'' 0)],
      authorizedChannels =
        [(''telegram:general'', exampleChannel ''general'' ''telegram:alice'' ''all''),
         (''telegram:ops'', exampleChannel ''ops'' ''telegram:bob'' ''trusted-only''),
         (''telegram:random'', exampleChannel ''random'' ''telegram:alice'' ''mentions'')],
      seenChannels = [],
      secretStorage = Some exampleStore\<rparr>"

definition exampleMsg :: "string \<Rightarrow> string \<Rightarrow> bool \<Rightarrow> bool option \<Rightarrow> string \<Rightarrow> ExternalMessage" where
  "exampleMsg chat user dm mentions txt =
     \<lparr>msgId = ''m'', chatId = chat, userId = user, username = Some user, content = txt,
      timestamp = 0, transport = ''telegram'', isDM = dm, mentionsBot = mentions,
      channelName = None\<rparr>"

text \<open>
  A ledger with one user last active 31 days before day 100 and one 29 days before it; a
  router with Telegram registered on the example engine; an engine with one fresh
  challenge for Eve's chat, and that engine after one more submission.
\<close>

definition day :: int where
  "day = 1000 * 60 * 60 * 24"

definition exampleLedger :: "int \<Rightarrow> PersistedAuthData" where
  "exampleLedger v =
     \<lparr>p_trustedUsers =
        [(''telegram:old'', exampleUser ''old'' ''Old'' ''dm3'' (69 * day)),
         (''telegram:recent'', exampleUser ''recent'' ''Recent'' ''dm4'' (71 * day))],
      version = v\<rparr>"

definition exampleRouter :: TransportManager where
  "exampleRouter = (register ''telegram'' newTransportManager)\<lparr>challengeAuth := exampleAuth\<rparr>"

definition exampleChallenged :: ChallengeAuth where
  "exampleChallenged =
     snd (createChallenge 0 ''123456'' ''telegram'' ''chat1'' ''eve'' newChallengeAuth)"

definition exampleSubmit :: "int \<Rightarrow> string \<Rightarrow> ChallengeAuth \<Rightarrow> ChallengeAuth" where
  "exampleSubmit now response s =
     snd (verifyChallenge now ''telegram'' ''chat1'' response ''eve'' ''eve'' True s)"

lemmas example_defs =
  exampleUser_def exampleChannel_def exampleStore_def exampleAuth_def exampleMsg_def
  newChallengeAuth_def makeKey_def makeUserKey_def makeChannelKey_def


section \<open>Auxiliary facts\<close>

lemma saveToStorage_fields [simp]:
  "trustedUsers (saveToStorage s) = trustedUsers s"
  "pendingChallenges (saveToStorage s) = pendingChallenges s"
  "blockedUsers (saveToStorage s) = blockedUsers s"
  "authenticatedChats (saveToStorage s) = authenticatedChats s"
  "authorizedChannels (saveToStorage s) = authorizedChannels s"
  "seenChannels (saveToStorage s) = seenChannels s"
  by (simp_all add: saveToStorage_def split: option.splits)

lemma trustUser_pending [simp]: "pendingChallenges (trustUser now t u un dm s) = pendingChallenges s"
  by (simp add: trustUser_def)

lemma delete_as_filter: "AList.delete k al = filter (\<lambda>e. fst e \<noteq> k) al"
  by (induction al) auto

lemma fold_revokeStep:
  "fold (revokeStep k) xs acc =
     filter (\<lambda>e. \<not> (\<exists>ch. (fst e, ch) \<in> set xs \<and> authorizedBy ch = k)) acc"
proof (induction xs arbitrary: acc)
  case Nil
  then show ?case by simp
next
  case (Cons x xs)
  obtain ck c where x: "x = (ck, c)" by (cases x)
  have step: "revokeStep k x acc =
                (if authorizedBy c = k then filter (\<lambda>e. fst e \<noteq> ck) acc else acc)"
    by (simp add: x revokeStep_def delete_as_filter)
  have "fold (revokeStep k) (x # xs) acc = fold (revokeStep k) xs (revokeStep k x acc)"
    by simp
  also have "\<dots> = filter (\<lambda>e. \<not> (\<exists>ch. (fst e, ch) \<in> set xs \<and> authorizedBy ch = k))
                      (revokeStep k x acc)"
    by (rule Cons.IH)
  also have "\<dots> = filter (\<lambda>e. \<not> (\<exists>ch. (fst e, ch) \<in> set (x # xs) \<and> authorizedBy ch = k)) acc"
    unfolding step by (auto simp: x intro!: filter_cong)
  finally show ?case .
qed

lemma cascade_is_filter:
  assumes "distinct (map fst chans)"
  shows "fold (revokeStep k) chans chans = filter (\<lambda>e. authorizedBy (snd e) \<noteq> k) chans"
proof -
  have "\<And>e. e \<in> set chans \<Longrightarrow>
          (\<exists>ch. (fst e, ch) \<in> set chans \<and> authorizedBy ch = k) = (authorizedBy (snd e) = k)"
  proof -
    fix e assume e: "e \<in> set chans"
    show "(\<exists>ch. (fst e, ch) \<in> set chans \<and> authorizedBy ch = k) = (authorizedBy (snd e) = k)"
    proof
      assume "\<exists>ch. (fst e, ch) \<in> set chans \<and> authorizedBy ch = k"
      then obtain ch where ch: "(fst e, ch) \<in> set chans" "authorizedBy ch = k" by blast
      from assms ch(1) e have "ch = snd e"
        by (metis eq_key_imp_eq_value prod.collapse)
      with ch(2) show "authorizedBy (snd e) = k" by simp
    next
      assume "authorizedBy (snd e) = k"
      with e show "\<exists>ch. (fst e, ch) \<in> set chans \<and> authorizedBy ch = k"
        by (metis prod.collapse)
    qed
  qed
  then show ?thesis unfolding fold_revokeStep by (auto intro!: filter_cong)
qed

lemma colon_split:
  assumes "CHR '':'' \<notin> set t1" "CHR '':'' \<notin> set t2" "t1 @ CHR '':'' # i1 = t2 @ CHR '':'' # i2"
  shows "t1 = t2 \<and> i1 = i2"
  using assms
proof (induction t1 arbitrary: t2)
  case Nil
  then show ?case by (cases t2) auto
next
  case (Cons a t1)
  then show ?case by (cases t2) auto
qed

lemma ceiling_minutes: "(\<lceil>real_of_int d / 1000 / 60\<rceil> = m) = (60000 * (m - 1) < d \<and> d \<le> 60000 * m)"
proof -
  have "(\<lceil>real_of_int d / 1000 / 60\<rceil> = m) = (real_of_int m - 1 < real_of_int d / 1000 / 60 \<and> real_of_int d / 1000 / 60 \<le> real_of_int m)"
    by (rule ceiling_eq_iff)
  also have "\<dots> = (real_of_int (60000 * (m - 1)) < real_of_int d \<and> real_of_int d \<le> real_of_int (60000 * m))"
    by (auto simp: field_simps)
  also have "\<dots> = (60000 * (m - 1) < d \<and> d \<le> 60000 * m)"
    by (simp only: of_int_less_iff of_int_le_iff)
  finally show ?thesis .
qed

lemma remaining_none:
  "map_of (blockedUsers s) (makeKey t c) = None \<Longrightarrow> getBlockTimeRemaining now t c s = 0"
  by (simp add: getBlockTimeRemaining_def)

lemma remaining_some:
  "map_of (blockedUsers s) (makeKey t c) = Some b \<Longrightarrow>
     (getBlockTimeRemaining now t c s = m) = (60000 * (m - 1) < until b - now \<and> until b - now \<le> 60000 * m)"
  by (simp only: getBlockTimeRemaining_def option.case ceiling_minutes)

lemma remaining_nonneg:
  assumes "map_of (blockedUsers s) (makeKey t c) = Some b" "now \<le> until b"
  shows "0 \<le> getBlockTimeRemaining now t c s"
proof -
  have "until b - now \<le> 60000 * getBlockTimeRemaining now t c s"
    using remaining_some [OF assms(1), of now "getBlockTimeRemaining now t c s"] by simp
  with assms(2) show ?thesis by linarith
qed

lemma verify_none:
  "map_of (pendingChallenges s) (makeKey t c) = None \<Longrightarrow> verifyChallenge now t c r u un dm s = (Expired, s)"
  by (simp add: verifyChallenge_def)

lemma verify_correct:
  assumes "map_of (pendingChallenges s) (makeKey t c) = Some ch" "now \<le> expiresAt ch" "key ch = r"
  shows "fst (verifyChallenge now t c r u un dm s) = Success"
    and "map_of (pendingChallenges (snd (verifyChallenge now t c r u un dm s))) (makeKey t c) = None"
  using assms by (simp_all add: verifyChallenge_def Let_def delete_conv)


section \<open>The permission decision\<close>

text \<open>
  Claim C1. \<open>canRespondTo\<close> decides by the truth table: a direct message is allowed iff
  the chat is marked authenticated or the sender is trusted on that transport, else it
  is denied with \<open>not-dm-authed\<close>; a group message in a channel without an authorization
  record is denied with \<open>channel-not-authorized\<close>; in an authorized channel mode \<open>all\<close>
  always allows, mode \<open>trusted-only\<close> allows iff the sender is trusted (else
  \<open>not-trusted-in-channel\<close>), and mode \<open>mentions\<close> allows iff the sender is trusted or the
  message mentions the bot (else \<open>no-mention\<close>).
\<close>

theorem canRespondTo_truth_table:
  "(isDM msg \<longrightarrow>
      canRespondTo msg s =
        (if isAuthenticated (transport msg) (chatId msg) s
            \<or> isUserTrusted (transport msg) (userId msg) s
         then Allowed else Denied NotDmAuthed))
   \<and> (\<not> isDM msg \<and> \<not> isChannelAuthorized (transport msg) (chatId msg) s \<longrightarrow>
        canRespondTo msg s = Denied ChannelNotAuthorized)
   \<and> (\<forall>ch. \<not> isDM msg \<and> getChannelAuth (transport msg) (chatId msg) s = Some ch \<longrightarrow>
        (mode ch = ''all'' \<longrightarrow> canRespondTo msg s = Allowed)
      \<and> (mode ch = ''trusted-only'' \<longrightarrow>
           canRespondTo msg s =
             (if isUserTrusted (transport msg) (userId msg) s then Allowed
              else Denied NotTrustedInChannel))
      \<and> (mode ch = ''mentions'' \<longrightarrow>
           canRespondTo msg s =
             (if isUserTrusted (transport msg) (userId msg) s \<or> mentionsBot msg = Some True
              then Allowed else Denied NoMention)))"
  by (auto simp: canRespondTo_def isChannelAuthorized_def getChannelAuth_def)

theorem canRespondTo_truth_table_witness:
  "canRespondTo (exampleMsg ''dm1'' ''alice'' True None ''hi'') exampleAuth = Allowed
   \<and> canRespondTo (exampleMsg ''dm7'' ''bob'' True None ''hi'') exampleAuth = Allowed
   \<and> canRespondTo (exampleMsg ''dm9'' ''carol'' True None ''hi'') exampleAuth = Denied NotDmAuthed
   \<and> canRespondTo (exampleMsg ''lobby'' ''alice'' False (Some True) ''hi'') exampleAuth
       = Denied ChannelNotAuthorized
   \<and> canRespondTo (exampleMsg ''general'' ''carol'' False None ''hi'') exampleAuth = Allowed
   \<and> canRespondTo (exampleMsg ''ops'' ''carol'' False (Some True) ''hi'') exampleAuth
       = Denied NotTrustedInChannel
   \<and> canRespondTo (exampleMsg ''ops'' ''alice'' False None ''hi'') exampleAuth = Allowed
   \<and> canRespondTo (exampleMsg ''random'' ''bob'' False (Some False) ''hi'') exampleAuth = Allowed
   \<and> canRespondTo (exampleMsg ''random'' ''carol'' False None ''hi'') exampleAuth = Denied NoMention
   \<and> canRespondTo (exampleMsg ''random'' ''carol'' False (Some True) ''hi'') exampleAuth = Allowed"
  using canRespondTo_truth_table [of "exampleMsg ''dm1'' ''alice'' True None ''hi''" exampleAuth]
    canRespondTo_truth_table [of "exampleMsg ''dm7'' ''bob'' True None ''hi''" exampleAuth]
    canRespondTo_truth_table [of "exampleMsg ''dm9'' ''carol'' True None ''hi''" exampleAuth]
    canRespondTo_truth_table [of "exampleMsg ''lobby'' ''alice'' False (Some True) ''hi''" exampleAuth]
    canRespondTo_truth_table [of "exampleMsg ''general'' ''carol'' False None ''hi''" exampleAuth]
    canRespondTo_truth_table [of "exampleMsg ''ops'' ''carol'' False (Some True) ''hi''" exampleAuth]
    canRespondTo_truth_table [of "exampleMsg ''ops'' ''alice'' False None ''hi''" exampleAuth]
    canRespondTo_truth_table [of "exampleMsg ''random'' ''bob'' False (Some False) ''hi''" exampleAuth]
    canRespondTo_truth_table [of "exampleMsg ''random'' ''carol'' False None ''hi''" exampleAuth]
    canRespondTo_truth_table [of "exampleMsg ''random'' ''carol'' False (Some True) ''hi''" exampleAuth]
  by (simp add: example_defs isAuthenticated_def isUserTrusted_def isChannelAuthorized_def
        getChannelAuth_def)

section \<open>The challenge\<close>

text \<open>
  Claim C3. For a freshly created challenge, the correct code submitted before expiry
  yields \<open>success\<close> and deletes the challenge, and whatever is submitted to that chat
  afterwards (the same code included) yields \<open>expired\<close>; \<open>verifyChallenge\<close> with no
  pending challenge yields \<open>expired\<close>, and so does \<open>verifyChallenge\<close> after the expiry
  instant, which also deletes the challenge.
\<close>

theorem verifyChallenge_success_once:
  "(now \<le> t0 + CHALLENGE_EXPIRY_MS \<longrightarrow>
      fst (verifyChallenge now t c code u un dm (snd (createChallenge t0 code t c un0 s))) = Success
      \<and> map_of (pendingChallenges
            (snd (verifyChallenge now t c code u un dm (snd (createChallenge t0 code t c un0 s)))))
            (makeKey t c) = None
      \<and> (\<forall>now' r' u' un' dm'.
            fst (verifyChallenge now' t c r' u' un' dm'
                  (snd (verifyChallenge now t c code u un dm (snd (createChallenge t0 code t c un0 s)))))
              = Expired))
   \<and> (map_of (pendingChallenges s) (makeKey t c) = None \<longrightarrow>
        verifyChallenge now t c r u un dm s = (Expired, s))
   \<and> (\<forall>ch. map_of (pendingChallenges s) (makeKey t c) = Some ch \<and> now > expiresAt ch \<longrightarrow>
        verifyChallenge now t c r u un dm s
          = (Expired, s\<lparr>pendingChallenges := AList.delete (makeKey t c) (pendingChallenges s)\<rparr>))"
proof (intro conjI impI allI)
  let ?s1 = "snd (createChallenge t0 code t c un0 s)"
  let ?ch = "\<lparr>key = code, expiresAt = t0 + CHALLENGE_EXPIRY_MS, attempts = 0\<rparr>"
  assume early: "now \<le> t0 + CHALLENGE_EXPIRY_MS"
  have pend: "map_of (pendingChallenges ?s1) (makeKey t c) = Some ?ch"
    by (simp add: createChallenge_def update_conv)
  show "fst (verifyChallenge now t c code u un dm ?s1) = Success"
    using verify_correct(1) [OF pend] early by simp
  show gone: "map_of (pendingChallenges (snd (verifyChallenge now t c code u un dm ?s1))) (makeKey t c) = None"
    using verify_correct(2) [OF pend] early by simp
  fix now' r' u' un' dm'
  show "fst (verifyChallenge now' t c r' u' un' dm' (snd (verifyChallenge now t c code u un dm ?s1))) = Expired"
    using verify_none [OF gone] by simp
next
  assume "map_of (pendingChallenges s) (makeKey t c) = None"
  then show "verifyChallenge now t c r u un dm s = (Expired, s)" by (rule verify_none)
next
  fix ch
  assume "map_of (pendingChallenges s) (makeKey t c) = Some ch \<and> expiresAt ch < now"
  then show "verifyChallenge now t c r u un dm s
          = (Expired, s\<lparr>pendingChallenges := AList.delete (makeKey t c) (pendingChallenges s)\<rparr>)"
    by (simp add: verifyChallenge_def)
qed

theorem verifyChallenge_success_once_witness:
  "(1000::int) \<le> 0 + CHALLENGE_EXPIRY_MS
   \<and> fst (verifyChallenge 1000 ''telegram'' ''chat123'' ''123456'' ''user123'' ''testuser'' True
        (snd (createChallenge 0 ''123456'' ''telegram'' ''chat123'' ''testuser'' newChallengeAuth)))
      = Success
   \<and> map_of (pendingChallenges newChallengeAuth) (makeKey ''telegram'' ''chat123'') = None
   \<and> verifyChallenge 1000 ''telegram'' ''chat123'' ''000000'' ''user123'' ''testuser'' True
        newChallengeAuth = (Expired, newChallengeAuth)
   \<and> map_of (pendingChallenges
        (snd (createChallenge 0 ''123456'' ''telegram'' ''chat123'' ''testuser'' newChallengeAuth)))
        (makeKey ''telegram'' ''chat123'')
      = Some \<lparr>key = ''123456'', expiresAt = 120000, attempts = 0\<rparr>
   \<and> verifyChallenge 120001 ''telegram'' ''chat123'' ''123456'' ''user123'' ''testuser'' True
        (snd (createChallenge 0 ''123456'' ''telegram'' ''chat123'' ''testuser'' newChallengeAuth))
      = (Expired, newChallengeAuth)"
  using verifyChallenge_success_once [of 1000 0 "''telegram''" "''chat123''" "''123456''" "''user123''"
          "''testuser''" True "''testuser''" newChallengeAuth "''000000''"]
        verifyChallenge_success_once [of 120001 0 "''telegram''" "''chat123''" "''123456''" "''user123''"
          "''testuser''" True "''testuser''"
          "snd (createChallenge 0 ''123456'' ''telegram'' ''chat123'' ''testuser'' newChallengeAuth)"
          "''123456''"]
  by (simp add: CHALLENGE_EXPIRY_MS_def createChallenge_def newChallengeAuth_def makeKey_def)

section \<open>Lockouts\<close>

text \<open>
  Claim C9, as the code has it. \<open>isBlocked\<close> expires lazily: with no lockout it answers
  no; a lockout whose \<open>until\<close> is in the past is deleted by the check, which answers no,
  and after that check \<open>getBlockTimeRemaining\<close> is zero; a lockout still in force
  is kept and the answer is yes. \<open>getBlockTimeRemaining\<close> itself deletes nothing: it is
  zero without a lockout, and otherwise the distance from now to \<open>until\<close> in whole
  minutes, rounded up, which is not negative while the lockout is in force.
\<close>

theorem lockout_lazy_expiry:
  "(map_of (blockedUsers s) (makeKey t c) = None \<longrightarrow>
      isBlocked now t c s = (False, s) \<and> getBlockTimeRemaining now t c s = 0)
   \<and> (\<forall>b. map_of (blockedUsers s) (makeKey t c) = Some b \<longrightarrow>
        (now > until b \<longrightarrow>
           isBlocked now t c s = (False, s\<lparr>blockedUsers := AList.delete (makeKey t c) (blockedUsers s)\<rparr>)
           \<and> map_of (blockedUsers (snd (isBlocked now t c s))) (makeKey t c) = None
           \<and> getBlockTimeRemaining now t c (snd (isBlocked now t c s)) = 0)
      \<and> (now \<le> until b \<longrightarrow> isBlocked now t c s = (True, s) \<and> 0 \<le> getBlockTimeRemaining now t c s)
      \<and> (\<forall>m. getBlockTimeRemaining now t c s = m \<longleftrightarrow>
             60000 * (m - 1) < until b - now \<and> until b - now \<le> 60000 * m))"
proof (intro conjI impI allI)
  assume "map_of (blockedUsers s) (makeKey t c) = None"
  then show "isBlocked now t c s = (False, s)" "getBlockTimeRemaining now t c s = 0"
    by (simp_all add: isBlocked_def remaining_none)
next
  fix b
  assume b: "map_of (blockedUsers s) (makeKey t c) = Some b" and late: "until b < now"
  show del: "isBlocked now t c s = (False, s\<lparr>blockedUsers := AList.delete (makeKey t c) (blockedUsers s)\<rparr>)"
    using b late by (simp add: isBlocked_def)
  show gone: "map_of (blockedUsers (snd (isBlocked now t c s))) (makeKey t c) = None"
    by (simp add: del delete_conv)
  show "getBlockTimeRemaining now t c (snd (isBlocked now t c s)) = 0"
    using gone by (rule remaining_none)
next
  fix b
  assume b: "map_of (blockedUsers s) (makeKey t c) = Some b" and early: "now \<le> until b"
  show "isBlocked now t c s = (True, s)" using b early by (simp add: isBlocked_def)
  show "0 \<le> getBlockTimeRemaining now t c s" using b early by (rule remaining_nonneg)
next
  fix b m
  assume b: "map_of (blockedUsers s) (makeKey t c) = Some b"
  show "(getBlockTimeRemaining now t c s = m) =
          (60000 * (m - 1) < until b - now \<and> until b - now \<le> 60000 * m)"
    using b by (rule remaining_some)
qed

theorem lockout_lazy_expiry_witness:
  "map_of (blockedUsers newChallengeAuth) (makeKey ''telegram'' ''chat1'') = None
   \<and> isBlocked 1 ''telegram'' ''chat1'' newChallengeAuth = (False, newChallengeAuth)
   \<and> map_of (blockedUsers (newChallengeAuth\<lparr>blockedUsers := [(''telegram:chat1'', \<lparr>until = 300000\<rparr>)]\<rparr>))
        (makeKey ''telegram'' ''chat1'') = Some \<lparr>until = 300000\<rparr>
   \<and> isBlocked 1 ''telegram'' ''chat1''
        (newChallengeAuth\<lparr>blockedUsers := [(''telegram:chat1'', \<lparr>until = 300000\<rparr>)]\<rparr>)
       = (True, newChallengeAuth\<lparr>blockedUsers := [(''telegram:chat1'', \<lparr>until = 300000\<rparr>)]\<rparr>)
   \<and> getBlockTimeRemaining 1 ''telegram'' ''chat1''
        (newChallengeAuth\<lparr>blockedUsers := [(''telegram:chat1'', \<lparr>until = 300000\<rparr>)]\<rparr>) = 5
   \<and> isBlocked 300001 ''telegram'' ''chat1''
        (newChallengeAuth\<lparr>blockedUsers := [(''telegram:chat1'', \<lparr>until = 300000\<rparr>)]\<rparr>)
       = (False, newChallengeAuth)"
  using lockout_lazy_expiry [where s = newChallengeAuth and t = "''telegram''" and c = "''chat1''"
          and now = 1]
    lockout_lazy_expiry [where s = "newChallengeAuth\<lparr>blockedUsers := [(''telegram:chat1'', \<lparr>until = 300000\<rparr>)]\<rparr>"
          and t = "''telegram''" and c = "''chat1''" and now = 1]
    lockout_lazy_expiry [where s = "newChallengeAuth\<lparr>blockedUsers := [(''telegram:chat1'', \<lparr>until = 300000\<rparr>)]\<rparr>"
          and t = "''telegram''" and c = "''chat1''" and now = 300001]
  by (simp add: newChallengeAuth_def makeKey_def)

text \<open>
  The claim as worded fails for \<open>getBlockTimeRemaining\<close>: two minutes after the end of a
  lockout \<open>isBlocked\<close> deletes it and answers no, while \<open>getBlockTimeRemaining\<close> on the same
  engine answers minus two, not zero.
\<close>

theorem getBlockTimeRemaining_expired_counterexample:
  "isBlocked 120000 ''telegram'' ''chat1''
      (newChallengeAuth\<lparr>blockedUsers := [(''telegram:chat1'', \<lparr>until = 0\<rparr>)]\<rparr>)
     = (False, newChallengeAuth)
   \<and> getBlockTimeRemaining 120000 ''telegram'' ''chat1''
      (newChallengeAuth\<lparr>blockedUsers := [(''telegram:chat1'', \<lparr>until = 0\<rparr>)]\<rparr>) = - 2"
  by (simp add: getBlockTimeRemaining_def isBlocked_def newChallengeAuth_def makeKey_def)

section \<open>Identity keys\<close>

text \<open>
  Claim C5, as the code has it. Trusting a user on transport \<open>A\<close> leaves the trust of the
  same user id on any other transport \<open>B\<close> as it was, and two distinct (transport, id)
  pairs have distinct keys provided neither transport name contains a colon.
\<close>

theorem transport_isolation:
  "(A \<noteq> B \<longrightarrow> isUserTrusted B u (trustUser now A u uname dm s) = isUserTrusted B u s)
   \<and> (CHR '':'' \<notin> set t1 \<and> CHR '':'' \<notin> set t2 \<and> (t1, i1) \<noteq> (t2, i2) \<longrightarrow>
        makeKey t1 i1 \<noteq> makeKey t2 i2 \<and> makeUserKey t1 i1 \<noteq> makeUserKey t2 i2
        \<and> makeChannelKey t1 i1 \<noteq> makeChannelKey t2 i2)"
proof (intro conjI impI)
  assume "A \<noteq> B"
  then have "makeUserKey B u \<noteq> makeUserKey A u" by (simp add: makeUserKey_def)
  then show "isUserTrusted B u (trustUser now A u uname dm s) = isUserTrusted B u s"
    by (simp add: isUserTrusted_def trustUser_def update_conv)
next
  assume h: "CHR '':'' \<notin> set t1 \<and> CHR '':'' \<notin> set t2 \<and> (t1, i1) \<noteq> (t2, i2)"
  then have ne: "t1 @ CHR '':'' # i1 \<noteq> t2 @ CHR '':'' # i2"
    using colon_split [of t1 t2 i1 i2] by auto
  show "makeKey t1 i1 \<noteq> makeKey t2 i2" using ne by (simp add: makeKey_def)
  show "makeUserKey t1 i1 \<noteq> makeUserKey t2 i2" using ne by (simp add: makeUserKey_def)
  show "makeChannelKey t1 i1 \<noteq> makeChannelKey t2 i2" using ne by (simp add: makeChannelKey_def)
qed

theorem transport_isolation_witness:
  "''telegram'' \<noteq> ''slack''
   \<and> isUserTrusted ''telegram'' ''user123''
        (trustUser 5 ''telegram'' ''user123'' ''testuser'' ''dm123'' newChallengeAuth)
   \<and> \<not> isUserTrusted ''slack'' ''user123''
        (trustUser 5 ''telegram'' ''user123'' ''testuser'' ''dm123'' newChallengeAuth)
   \<and> CHR '':'' \<notin> set ''telegram'' \<and> CHR '':'' \<notin> set ''slack''
   \<and> makeKey ''telegram'' ''user123'' \<noteq> makeKey ''slack'' ''user123''"
  using transport_isolation [of "''telegram''" "''slack''" "''user123''" 5 "''testuser''" "''dm123''"
          newChallengeAuth "''telegram''" "''slack''" "''user123''" "''user123''"]
  by (simp add: isUserTrusted_def trustUser_def saveToStorage_def newChallengeAuth_def makeUserKey_def)

text \<open>
  The claim as worded fails: a key is the two strings joined by a colon, so the pairs
  \<open>(a, b:c)\<close> and \<open>(a:b, c)\<close> share the key \<open>a:b:c\<close>, and trusting the first makes the second
  trusted.
\<close>

theorem key_collision_counterexample:
  "(''a'', ''b:c'') \<noteq> (''a:b'', ''c'') \<and> makeUserKey ''a'' ''b:c'' = makeUserKey ''a:b'' ''c''
   \<and> \<not> isUserTrusted ''a:b'' ''c'' newChallengeAuth
   \<and> isUserTrusted ''a:b'' ''c'' (trustUser 0 ''a'' ''b:c'' ''n'' ''d'' newChallengeAuth)"
  by (simp add: makeUserKey_def isUserTrusted_def trustUser_def saveToStorage_def newChallengeAuth_def)

section \<open>Revoking trust\<close>

text \<open>
  Claim C4. For a trusted user, \<open>untrustUser\<close> returns true, removes the user's entry and
  no other, leaves exactly the authorized channels whose \<open>authorizedBy\<close> is not the user's
  key, each unchanged and in its place, and flushes the ledger: an attached store that
  accepts the write holds the trusted users that remain. Without such a trusted user it
  returns false and the engine is unchanged. The channel map has one entry per key, as
  a \<open>Map\<close> has.
\<close>

theorem untrustUser_cascade:
  "(\<forall>user. distinct (map fst (authorizedChannels s)) \<and>
        map_of (trustedUsers s) (makeUserKey t u) = Some user \<longrightarrow>
      fst (untrustUser t u s) = True
      \<and> \<not> isUserTrusted t u (snd (untrustUser t u s))
      \<and> (\<forall>k. k \<noteq> makeUserKey t u \<longrightarrow>
             map_of (trustedUsers (snd (untrustUser t u s))) k = map_of (trustedUsers s) k)
      \<and> authorizedChannels (snd (untrustUser t u s)) =
          filter (\<lambda>e. authorizedBy (snd e) \<noteq> makeUserKey t u) (authorizedChannels s)
      \<and> secretStorage (snd (untrustUser t u s)) =
          (case secretStorage s of
             None \<Rightarrow> None
           | Some st \<Rightarrow>
               if storeRejects st then Some st
               else Some (st\<lparr>stored := Some (Document
                      \<lparr>p_trustedUsers = trustedUsers (snd (untrustUser t u s)),
                       version = STORAGE_VERSION\<rparr>)\<rparr>)))
   \<and> (\<not> isUserTrusted t u s \<longrightarrow> untrustUser t u s = (False, s))"
  by (auto simp: untrustUser_def isUserTrusted_def Let_def saveToStorage_def cascade_is_filter
        delete_conv split: option.splits)

theorem untrustUser_cascade_witness:
  "distinct (map fst (authorizedChannels exampleAuth))
   \<and> map_of (trustedUsers exampleAuth) (makeUserKey ''telegram'' ''alice'')
       = Some (exampleUser ''alice'' ''Alice'' ''dm1'' 0)
   \<and> fst (untrustUser ''telegram'' ''alice'' exampleAuth) = True
   \<and> trustedUsers (snd (untrustUser ''telegram'' ''alice'' exampleAuth))
       = [(''telegram:bob'', exampleUser ''bob'' ''Bob'' ''dm2'' 0)]
   \<and> authorizedChannels (snd (untrustUser ''telegram'' ''alice'' exampleAuth))
       = [(''telegram:ops'', exampleChannel ''ops'' ''telegram:bob'' ''trusted-only'')]
   \<and> secretStorage (snd (untrustUser ''telegram'' ''alice'' exampleAuth))
       = Some (exampleStore\<lparr>stored := Some (Document
            \<lparr>p_trustedUsers = [(''telegram:bob'', exampleUser ''bob'' ''Bob'' ''dm2'' 0)],
             version = 1\<rparr>)\<rparr>)
   \<and> \<not> isUserTrusted ''telegram'' ''carol'' exampleAuth
   \<and> untrustUser ''telegram'' ''carol'' exampleAuth = (False, exampleAuth)"
  using untrustUser_cascade [where s = exampleAuth and t = "''telegram''" and u = "''alice''"]
    untrustUser_cascade [where s = exampleAuth and t = "''telegram''" and u = "''carol''"]
  by (simp add: example_defs isUserTrusted_def untrustUser_def saveToStorage_def STORAGE_VERSION_def
        revokeStep_def Let_def)

text \<open>
  Claim C10. A successful \<open>untrustUser\<close> also removes the user's \<open>dmChatId\<close> from the
  authenticated chats: afterwards that chat is not authenticated, the user is not trusted,
  and \<open>canRespondTo\<close> denies a direct message from that user in that chat with
  \<open>not-dm-authed\<close>.
\<close>

theorem untrustUser_cuts_dm_access:
  "map_of (trustedUsers s) (makeUserKey t u) = Some user \<Longrightarrow>
     fst (untrustUser t u s) = True
     \<and> \<not> isAuthenticated t (dmChatId user) (snd (untrustUser t u s))
     \<and> \<not> isUserTrusted t u (snd (untrustUser t u s))
     \<and> (\<forall>msg. isDM msg \<and> transport msg = t \<and> userId msg = u \<and> chatId msg = dmChatId user \<longrightarrow>
           canRespondTo msg (snd (untrustUser t u s)) = Denied NotDmAuthed)"
  by (auto simp: untrustUser_def Let_def saveToStorage_def isAuthenticated_def isUserTrusted_def
        canRespondTo_def delete_conv split: option.splits)

theorem untrustUser_cuts_dm_access_witness:
  "map_of (trustedUsers exampleAuth) (makeUserKey ''telegram'' ''alice'')
     = Some (exampleUser ''alice'' ''Alice'' ''dm1'' 0)
   \<and> isAuthenticated ''telegram'' ''dm1'' exampleAuth
   \<and> canRespondTo (exampleMsg ''dm1'' ''alice'' True None ''hi'') exampleAuth = Allowed
   \<and> \<not> isAuthenticated ''telegram'' ''dm1'' (snd (untrustUser ''telegram'' ''alice'' exampleAuth))
   \<and> canRespondTo (exampleMsg ''dm1'' ''alice'' True None ''hi'')
        (snd (untrustUser ''telegram'' ''alice'' exampleAuth)) = Denied NotDmAuthed"
proof -
  have h: "map_of (trustedUsers exampleAuth) (makeUserKey ''telegram'' ''alice'')
             = Some (exampleUser ''alice'' ''Alice'' ''dm1'' 0)"
    by (simp add: example_defs)
  have d: "dmChatId (exampleUser ''alice'' ''Alice'' ''dm1'' 0) = ''dm1''"
    by (simp add: exampleUser_def)
  have m: "isDM (exampleMsg ''dm1'' ''alice'' True None ''hi'')
           \<and> transport (exampleMsg ''dm1'' ''alice'' True None ''hi'') = ''telegram''
           \<and> userId (exampleMsg ''dm1'' ''alice'' True None ''hi'') = ''alice''
           \<and> chatId (exampleMsg ''dm1'' ''alice'' True None ''hi'') = ''dm1''"
    by (simp add: exampleMsg_def)
  have before: "isAuthenticated ''telegram'' ''dm1'' exampleAuth
                \<and> canRespondTo (exampleMsg ''dm1'' ''alice'' True None ''hi'') exampleAuth = Allowed"
    by (simp add: example_defs isAuthenticated_def canRespondTo_def)
  from untrustUser_cuts_dm_access [OF h] d m before h show ?thesis by simp
qed

section \<open>Loading the ledger\<close>

lemma update_fresh: "k \<notin> fst ` set al \<Longrightarrow> AList.update k v al = al @ [(k, v)]"
  by (induction al) auto

lemma fold_loadEntry:
  "fold (loadEntry now) es (s, l, x) =
     (s\<lparr>trustedUsers :=
          fold (\<lambda>e. AList.update (fst e) (snd e))
            (filter (\<lambda>e. \<not> trustExpired now (snd e)) es) (trustedUsers s),
        authenticatedChats := authenticatedChats s \<union>
          (\<lambda>e. makeKey (tu_transport (snd e)) (dmChatId (snd e)))
            ` set (filter (\<lambda>e. \<not> trustExpired now (snd e)) es)\<rparr>,
      l + length (filter (\<lambda>e. \<not> trustExpired now (snd e)) es),
      x + length (filter (\<lambda>e. trustExpired now (snd e)) es))"
proof (induction es arbitrary: s l x)
  case Nil
  then show ?case by simp
next
  case (Cons e es)
  obtain k user where e: "e = (k, user)" by (cases e)
  show ?case
  proof (cases "trustExpired now user")
    case True
    then have "loadEntry now e (s, l, x) = (s, l, x + 1)" by (simp add: e loadEntry_def)
    then show ?thesis using True by (simp add: Cons.IH e)
  next
    case False
    then have "loadEntry now e (s, l, x) =
       (s\<lparr>trustedUsers := AList.update k user (trustedUsers s),
          authenticatedChats := insert (makeKey (tu_transport user) (dmChatId user)) (authenticatedChats s)\<rparr>,
        l + 1, x)" by (simp add: e loadEntry_def)
    then show ?thesis using False by (simp add: Cons.IH e)
  qed
qed

lemma fold_update_fresh:
  "distinct (map fst xs) \<Longrightarrow> fst ` set xs \<inter> fst ` set acc = {} \<Longrightarrow>
     fold (\<lambda>e. AList.update (fst e) (snd e)) xs acc = acc @ xs"
proof (induction xs arbitrary: acc)
  case Nil
  then show ?case by simp
next
  case (Cons e xs)
  have fresh: "fst e \<notin> fst ` set acc" using Cons.prems(2) by auto
  have "fst ` set xs \<inter> fst ` set (acc @ [e]) = {}"
    using Cons.prems by auto
  with Cons.IH [of "acc @ [e]"] Cons.prems(1) show ?case
    by (simp add: update_fresh [OF fresh])
qed

lemma map_of_fold_update:
  "distinct (map fst xs) \<Longrightarrow>
     map_of (fold (\<lambda>e. AList.update (fst e) (snd e)) xs acc) k =
       (case map_of xs k of Some v \<Rightarrow> Some v | None \<Rightarrow> map_of acc k)"
proof (induction xs arbitrary: acc)
  case Nil
  then show ?case by simp
next
  case (Cons e xs)
  then have "fst e \<notin> fst ` set xs" by auto
  then have "map_of xs (fst e) = None" by (simp add: map_of_eq_None_iff)
  with Cons show ?case by (auto simp: update_conv split: option.splits)
qed

lemma trustExpired_iff:
  "trustExpired now u = (\<exists>t. lastActiveAt u = Some t \<and> 30 * (1000 * 60 * 60 * 24) < now - t)"
proof (cases "lastActiveAt u")
  case None
  then show ?thesis by (simp add: trustExpired_def daysSinceActive_def)
next
  case (Some t)
  have "(TRUST_EXPIRY_DAYS < real_of_int (now - t) / (1000 * 60 * 60 * 24))
        = (real_of_int (30 * (1000 * 60 * 60 * 24)) < real_of_int (now - t))"
    by (simp add: TRUST_EXPIRY_DAYS_def field_simps)
  also have "\<dots> = (30 * (1000 * 60 * 60 * 24) < now - t)"
    by (simp only: of_int_less_iff)
  finally show ?thesis using Some by (simp add: trustExpired_def daysSinceActive_def)
qed

lemma loadFromStorage_document:
  assumes "secretStorage s = Some st" "\<not> getRejects st" "stored st = Some (Document doc)"
    "version doc = STORAGE_VERSION"
  shows "loadFromStorage now s =
     (let s' = s\<lparr>trustedUsers :=
                  fold (\<lambda>e. AList.update (fst e) (snd e))
                    (filter (\<lambda>e. \<not> trustExpired now (snd e)) (p_trustedUsers doc)) (trustedUsers s),
                authenticatedChats := authenticatedChats s \<union>
                  (\<lambda>e. makeKey (tu_transport (snd e)) (dmChatId (snd e)))
                    ` set (filter (\<lambda>e. \<not> trustExpired now (snd e)) (p_trustedUsers doc))\<rparr>
      in if \<exists>e \<in> set (p_trustedUsers doc). trustExpired now (snd e) then saveToStorage s' else s')"
proof -
  have "(0 < length (filter (\<lambda>e. trustExpired now (snd e)) (p_trustedUsers doc)))
        = (\<exists>e \<in> set (p_trustedUsers doc). trustExpired now (snd e))"
    by (simp add: filter_empty_conv)
  then show ?thesis
    using assms by (simp add: loadFromStorage_def fold_loadEntry Let_def)
qed

text \<open>
  Claim C6. Loading a stored document whose version is not the current one changes
  nothing: no user is loaded. Otherwise every entry is judged by its inactivity, which
  exceeds 30 days exactly when more than 30 times 86400000 milliseconds lie between
  \<open>lastActiveAt\<close> and now: such an entry is dropped (its key keeps what the engine had),
  any other entry is loaded under its key. On a fresh engine the trusted users are then
  the entries kept, in order. If an entry was dropped, the trusted users as they are after
  the load are written back to the store (when the store accepts the write); if none was
  dropped the store is not written. The keys of the document are distinct, as those
  of a JSON object are.
\<close>

theorem loadFromStorage_prunes_expired:
  "secretStorage s = Some st \<and> \<not> getRejects st \<and> stored st = Some (Document doc) \<longrightarrow>
     (version doc \<noteq> STORAGE_VERSION \<longrightarrow> loadFromStorage now s = s)
   \<and> (version doc = STORAGE_VERSION \<and> distinct (map fst (p_trustedUsers doc)) \<longrightarrow>
        (\<forall>k u. (k, u) \<in> set (p_trustedUsers doc) \<longrightarrow>
            trustExpired now u = (\<exists>t. lastActiveAt u = Some t \<and> 30 * (1000 * 60 * 60 * 24) < now - t)
          \<and> map_of (trustedUsers (loadFromStorage now s)) k
              = (if trustExpired now u then map_of (trustedUsers s) k else Some u))
      \<and> (trustedUsers s = [] \<longrightarrow>
            trustedUsers (loadFromStorage now s)
              = filter (\<lambda>e. \<not> trustExpired now (snd e)) (p_trustedUsers doc))
      \<and> secretStorage (loadFromStorage now s) =
          (if (\<exists>e \<in> set (p_trustedUsers doc). trustExpired now (snd e)) \<and> \<not> storeRejects st
           then Some (st\<lparr>stored := Some (Document
                  \<lparr>p_trustedUsers = trustedUsers (loadFromStorage now s),
                   version = STORAGE_VERSION\<rparr>)\<rparr>)
           else Some st))"
proof (intro impI conjI allI)
  assume a: "secretStorage s = Some st \<and> \<not> getRejects st \<and> stored st = Some (Document doc)"
    and "version doc \<noteq> STORAGE_VERSION"
  then show "loadFromStorage now s = s" by (simp add: loadFromStorage_def)
next
  fix k u
  assume a: "secretStorage s = Some st \<and> \<not> getRejects st \<and> stored st = Some (Document doc)"
    and v: "version doc = STORAGE_VERSION \<and> distinct (map fst (p_trustedUsers doc))"
    and e: "(k, u) \<in> set (p_trustedUsers doc)"
  let ?kept = "filter (\<lambda>e. \<not> trustExpired now (snd e)) (p_trustedUsers doc)"
  show "trustExpired now u = (\<exists>t. lastActiveAt u = Some t \<and> 30 * (1000 * 60 * 60 * 24) < now - t)"
    by (rule trustExpired_iff)
  have dk: "distinct (map fst ?kept)" using v by (simp add: distinct_map_filter)
  have mk: "map_of ?kept k = (if trustExpired now u then None else Some u)"
  proof (cases "trustExpired now u")
    case True
    have "k \<notin> fst ` set ?kept"
    proof
      assume "k \<in> fst ` set ?kept"
      then obtain u' where u': "(k, u') \<in> set (p_trustedUsers doc)" "\<not> trustExpired now u'" by auto
      with v e have "u' = u" by (metis eq_key_imp_eq_value)
      with True u'(2) show False by simp
    qed
    then show ?thesis using True by (simp add: map_of_eq_None_iff)
  next
    case False
    with e have "(k, u) \<in> set ?kept" by simp
    with dk show ?thesis using False by simp
  qed
  have tu: "trustedUsers (loadFromStorage now s)
              = fold (\<lambda>e. AList.update (fst e) (snd e)) ?kept (trustedUsers s)"
    using a v by (simp add: loadFromStorage_document [of s st doc now] Let_def)
  show "map_of (trustedUsers (loadFromStorage now s)) k
              = (if trustExpired now u then map_of (trustedUsers s) k else Some u)"
    by (simp add: tu map_of_fold_update [OF dk] mk)
next
  assume a: "secretStorage s = Some st \<and> \<not> getRejects st \<and> stored st = Some (Document doc)"
    and v: "version doc = STORAGE_VERSION \<and> distinct (map fst (p_trustedUsers doc))"
    and empty: "trustedUsers s = []"
  let ?kept = "filter (\<lambda>e. \<not> trustExpired now (snd e)) (p_trustedUsers doc)"
  have dk: "distinct (map fst ?kept)" using v by (simp add: distinct_map_filter)
  have "trustedUsers (loadFromStorage now s)
              = fold (\<lambda>e. AList.update (fst e) (snd e)) ?kept (trustedUsers s)"
    using a v by (simp add: loadFromStorage_document [of s st doc now] Let_def)
  also have "\<dots> = ?kept" using fold_update_fresh [OF dk, of "[]"] empty by simp
  finally show "trustedUsers (loadFromStorage now s) = ?kept" .
next
  assume a: "secretStorage s = Some st \<and> \<not> getRejects st \<and> stored st = Some (Document doc)"
    and v: "version doc = STORAGE_VERSION \<and> distinct (map fst (p_trustedUsers doc))"
  show "secretStorage (loadFromStorage now s) =
          (if (\<exists>e \<in> set (p_trustedUsers doc). trustExpired now (snd e)) \<and> \<not> storeRejects st
           then Some (st\<lparr>stored := Some (Document
                  \<lparr>p_trustedUsers = trustedUsers (loadFromStorage now s),
                   version = STORAGE_VERSION\<rparr>)\<rparr>)
           else Some st)"
    using a v by (auto simp: loadFromStorage_document [of s st doc now] Let_def saveToStorage_def)
qed

theorem loadFromStorage_prunes_expired_witness:
  "trustExpired (100 * day) (exampleUser ''old'' ''Old'' ''dm3'' (69 * day))
   \<and> \<not> trustExpired (100 * day) (exampleUser ''recent'' ''Recent'' ''dm4'' (71 * day))
   \<and> trustedUsers (initialize (100 * day) (exampleStore\<lparr>stored := Some (Document (exampleLedger 1))\<rparr>)
        newChallengeAuth)
       = [(''telegram:recent'', exampleUser ''recent'' ''Recent'' ''dm4'' (71 * day))]
   \<and> secretStorage (initialize (100 * day) (exampleStore\<lparr>stored := Some (Document (exampleLedger 1))\<rparr>)
        newChallengeAuth)
       = Some (exampleStore\<lparr>stored := Some (Document
            \<lparr>p_trustedUsers = [(''telegram:recent'', exampleUser ''recent'' ''Recent'' ''dm4'' (71 * day))],
             version = 1\<rparr>)\<rparr>)
   \<and> trustedUsers (initialize (100 * day) (exampleStore\<lparr>stored := Some (Document (exampleLedger 2))\<rparr>)
        newChallengeAuth) = []"
  using loadFromStorage_prunes_expired
      [where s = "newChallengeAuth\<lparr>secretStorage := Some (exampleStore\<lparr>stored := Some (Document (exampleLedger 1))\<rparr>)\<rparr>"
         and st = "exampleStore\<lparr>stored := Some (Document (exampleLedger 1))\<rparr>"
         and doc = "exampleLedger 1" and now = "100 * day"]
    loadFromStorage_prunes_expired
      [where s = "newChallengeAuth\<lparr>secretStorage := Some (exampleStore\<lparr>stored := Some (Document (exampleLedger 2))\<rparr>)\<rparr>"
         and st = "exampleStore\<lparr>stored := Some (Document (exampleLedger 2))\<rparr>"
         and doc = "exampleLedger 2" and now = "100 * day"]
  by (simp add: initialize_def exampleLedger_def exampleStore_def exampleUser_def newChallengeAuth_def
        STORAGE_VERSION_def day_def trustExpired_def daysSinceActive_def TRUST_EXPIRY_DAYS_def)

section \<open>Three wrong codes\<close>

lemma verify_wrong:
  assumes "map_of (pendingChallenges s) (makeKey t c) = Some ch" "now \<le> expiresAt ch" "r \<noteq> key ch"
    "attempts ch + 1 < MAX_ATTEMPTS"
  shows "verifyChallenge now t c r u un dm s =
           (Wrong, s\<lparr>pendingChallenges :=
                       AList.update (makeKey t c) (ch\<lparr>attempts := attempts ch + 1\<rparr>) (pendingChallenges s)\<rparr>)"
  using assms by (simp add: verifyChallenge_def Let_def)

lemma verify_blocked:
  assumes "map_of (pendingChallenges s) (makeKey t c) = Some ch" "now \<le> expiresAt ch" "r \<noteq> key ch"
    "MAX_ATTEMPTS \<le> attempts ch + 1"
  shows "verifyChallenge now t c r u un dm s =
           (Blocked, s\<lparr>pendingChallenges := AList.delete (makeKey t c)
                          (AList.update (makeKey t c) (ch\<lparr>attempts := attempts ch + 1\<rparr>) (pendingChallenges s)),
                        blockedUsers := AList.update (makeKey t c) \<lparr>until = now + BLOCK_DURATION_MS\<rparr> (blockedUsers s)\<rparr>)"
  using assms by (simp add: verifyChallenge_def Let_def)

lemma handleMessage_locked:
  assumes "map_of (blockedUsers (challengeAuth r)) (makeKey (transport msg) (chatId msg)) = Some b"
    "now \<le> until b" "transport msg \<in> set (transports r)"
  shows "handleMessage now code msg r =
           sendMessage (transport msg) (chatId msg)
             (TooManyAttempts (getBlockTimeRemaining now (transport msg) (chatId msg) (challengeAuth r))) r"
  using assms by (simp add: handleMessage_def isBlocked_def Let_def)

text \<open>
  Claim C2. On a pending challenge with no attempt made yet, three wrong codes, each
  submitted before expiry, yield \<open>wrong\<close>, \<open>wrong\<close>, \<open>blocked\<close>; the third deletes the
  challenge and creates a lockout that ends five minutes later. Until then \<open>isBlocked\<close>
  holds for that chat and the router answers any message from it, whatever its content,
  with the too-many-attempts reply and does nothing else.
\<close>

theorem three_wrong_codes_block:
  assumes "map_of (pendingChallenges s) (makeKey t c) = Some ch" and "attempts ch = 0"
    and "t1 \<le> expiresAt ch" and "t2 \<le> expiresAt ch" and "t3 \<le> expiresAt ch"
    and "r1 \<noteq> key ch" and "r2 \<noteq> key ch" and "r3 \<noteq> key ch"
    and "s1 = snd (verifyChallenge t1 t c r1 u un dm s)"
    and "s2 = snd (verifyChallenge t2 t c r2 u un dm s1)"
    and "s3 = snd (verifyChallenge t3 t c r3 u un dm s2)"
  shows "fst (verifyChallenge t1 t c r1 u un dm s) = Wrong
       \<and> fst (verifyChallenge t2 t c r2 u un dm s1) = Wrong
       \<and> fst (verifyChallenge t3 t c r3 u un dm s2) = Blocked
       \<and> map_of (pendingChallenges s3) (makeKey t c) = None
       \<and> map_of (blockedUsers s3) (makeKey t c) = Some \<lparr>until = t3 + BLOCK_DURATION_MS\<rparr>
       \<and> (\<forall>now. now \<le> t3 + BLOCK_DURATION_MS \<longrightarrow>
             isBlocked now t c s3 = (True, s3)
           \<and> (\<forall>code msg r. challengeAuth r = s3 \<and> transport msg = t \<and> chatId msg = c
                   \<and> t \<in> set (transports r) \<longrightarrow>
                 handleMessage now code msg r =
                   sendMessage t c (TooManyAttempts (getBlockTimeRemaining now t c s3)) r))"
proof -
  let ?k = "makeKey t c"
  let ?c1 = "ch\<lparr>attempts := 1\<rparr>"
  let ?c2 = "ch\<lparr>attempts := 2\<rparr>"
  have v1: "verifyChallenge t1 t c r1 u un dm s =
              (Wrong, s\<lparr>pendingChallenges := AList.update ?k ?c1 (pendingChallenges s)\<rparr>)"
    using verify_wrong [OF assms(1) assms(3) assms(6), of u un dm] assms(2)
    by (simp add: MAX_ATTEMPTS_def)
  then have s1: "s1 = s\<lparr>pendingChallenges := AList.update ?k ?c1 (pendingChallenges s)\<rparr>"
    using assms(9) by simp
  have p1: "map_of (pendingChallenges s1) ?k = Some ?c1" by (simp add: s1 update_conv)
  have v2: "verifyChallenge t2 t c r2 u un dm s1 =
              (Wrong, s1\<lparr>pendingChallenges := AList.update ?k ?c2 (pendingChallenges s1)\<rparr>)"
    using verify_wrong [OF p1, of t2 r2 u un dm] assms(4) assms(7)
    by (simp add: MAX_ATTEMPTS_def)
  then have s2: "s2 = s1\<lparr>pendingChallenges := AList.update ?k ?c2 (pendingChallenges s1)\<rparr>"
    using assms(10) by simp
  have p2: "map_of (pendingChallenges s2) ?k = Some ?c2" by (simp add: s2 update_conv)
  have v3: "verifyChallenge t3 t c r3 u un dm s2 =
              (Blocked, s2\<lparr>pendingChallenges := AList.delete ?k
                             (AList.update ?k (ch\<lparr>attempts := 3\<rparr>) (pendingChallenges s2)),
                           blockedUsers := AList.update ?k \<lparr>until = t3 + BLOCK_DURATION_MS\<rparr> (blockedUsers s2)\<rparr>)"
    using verify_blocked [OF p2, of t3 r3 u un dm] assms(5) assms(8)
    by (simp add: MAX_ATTEMPTS_def)
  then have s3: "s3 = s2\<lparr>pendingChallenges := AList.delete ?k
                             (AList.update ?k (ch\<lparr>attempts := 3\<rparr>) (pendingChallenges s2)),
                           blockedUsers := AList.update ?k \<lparr>until = t3 + BLOCK_DURATION_MS\<rparr> (blockedUsers s2)\<rparr>"
    using assms(11) by simp
  have gone: "map_of (pendingChallenges s3) ?k = None" by (simp add: s3 delete_conv)
  have lock: "map_of (blockedUsers s3) ?k = Some \<lparr>until = t3 + BLOCK_DURATION_MS\<rparr>"
    by (simp add: s3 update_conv)
  have after: "isBlocked now t c s3 = (True, s3)
           \<and> (\<forall>code msg r. challengeAuth r = s3 \<and> transport msg = t \<and> chatId msg = c
                   \<and> t \<in> set (transports r) \<longrightarrow>
                 handleMessage now code msg r =
                   sendMessage t c (TooManyAttempts (getBlockTimeRemaining now t c s3)) r)"
    if "now \<le> t3 + BLOCK_DURATION_MS" for now
  proof (intro conjI allI impI)
    show "isBlocked now t c s3 = (True, s3)" using lock that by (simp add: isBlocked_def)
  next
    fix code :: string and msg :: ExternalMessage and r :: TransportManager
    assume h: "challengeAuth r = s3 \<and> transport msg = t \<and> chatId msg = c \<and> t \<in> set (transports r)"
    then have "map_of (blockedUsers (challengeAuth r)) (makeKey (transport msg) (chatId msg))
                 = Some \<lparr>until = t3 + BLOCK_DURATION_MS\<rparr>"
      using lock by simp
    from handleMessage_locked [OF this, of now code] that h
    show "handleMessage now code msg r =
            sendMessage t c (TooManyAttempts (getBlockTimeRemaining now t c s3)) r"
      by simp
  qed
  show ?thesis using v1 v2 v3 gone lock after by simp
qed

theorem three_wrong_codes_block_witness:
  "fst (verifyChallenge 1000 ''telegram'' ''chat1'' ''000000'' ''eve'' ''eve'' True exampleChallenged)
     = Wrong
   \<and> fst (verifyChallenge 2000 ''telegram'' ''chat1'' ''111111'' ''eve'' ''eve'' True
        (exampleSubmit 1000 ''000000'' exampleChallenged)) = Wrong
   \<and> fst (verifyChallenge 3000 ''telegram'' ''chat1'' ''222222'' ''eve'' ''eve'' True
        (exampleSubmit 2000 ''111111'' (exampleSubmit 1000 ''000000'' exampleChallenged))) = Blocked
   \<and> (4000::int) \<le> 3000 + BLOCK_DURATION_MS
   \<and> handleMessage 4000 ''654321'' (exampleMsg ''chat1'' ''eve'' True None ''123456'')
        (exampleRouter\<lparr>challengeAuth :=
           exampleSubmit 3000 ''222222''
             (exampleSubmit 2000 ''111111'' (exampleSubmit 1000 ''000000'' exampleChallenged))\<rparr>)
       = sendMessage ''telegram'' ''chat1'' (TooManyAttempts 5)
           (exampleRouter\<lparr>challengeAuth :=
              exampleSubmit 3000 ''222222''
                (exampleSubmit 2000 ''111111'' (exampleSubmit 1000 ''000000'' exampleChallenged))\<rparr>)"
proof -
  let ?ch = "\<lparr>key = ''123456'', expiresAt = 120000, attempts = 0\<rparr>"
  let ?s1 = "exampleSubmit 1000 ''000000'' exampleChallenged"
  let ?s2 = "exampleSubmit 2000 ''111111'' ?s1"
  let ?s3 = "exampleSubmit 3000 ''222222'' ?s2"
  let ?msg = "exampleMsg ''chat1'' ''eve'' True None ''123456''"
  let ?r = "exampleRouter\<lparr>challengeAuth := ?s3\<rparr>"
  have p: "map_of (pendingChallenges exampleChallenged) (makeKey ''telegram'' ''chat1'') = Some ?ch"
    by (simp add: exampleChallenged_def createChallenge_def CHALLENGE_EXPIRY_MS_def
          newChallengeAuth_def makeKey_def)
  have T: "fst (verifyChallenge 1000 ''telegram'' ''chat1'' ''000000'' ''eve'' ''eve'' True exampleChallenged) = Wrong
       \<and> fst (verifyChallenge 2000 ''telegram'' ''chat1'' ''111111'' ''eve'' ''eve'' True ?s1) = Wrong
       \<and> fst (verifyChallenge 3000 ''telegram'' ''chat1'' ''222222'' ''eve'' ''eve'' True ?s2) = Blocked
       \<and> map_of (pendingChallenges ?s3) (makeKey ''telegram'' ''chat1'') = None
       \<and> map_of (blockedUsers ?s3) (makeKey ''telegram'' ''chat1'') = Some \<lparr>until = 3000 + BLOCK_DURATION_MS\<rparr>
       \<and> (\<forall>now. now \<le> 3000 + BLOCK_DURATION_MS \<longrightarrow>
             isBlocked now ''telegram'' ''chat1'' ?s3 = (True, ?s3)
           \<and> (\<forall>code msg r. challengeAuth r = ?s3 \<and> transport msg = ''telegram'' \<and> chatId msg = ''chat1''
                   \<and> ''telegram'' \<in> set (transports r) \<longrightarrow>
                 handleMessage now code msg r =
                   sendMessage ''telegram'' ''chat1''
                     (TooManyAttempts (getBlockTimeRemaining now ''telegram'' ''chat1'' ?s3)) r))"
    by (rule three_wrong_codes_block [OF p]) (simp_all add: exampleSubmit_def)
  have late: "(4000::int) \<le> 3000 + BLOCK_DURATION_MS" by (simp add: BLOCK_DURATION_MS_def)
  have r: "challengeAuth ?r = ?s3 \<and> transport ?msg = ''telegram'' \<and> chatId ?msg = ''chat1''
           \<and> ''telegram'' \<in> set (transports ?r)"
    by (simp add: exampleMsg_def exampleRouter_def register_def newTransportManager_def)
  have h: "handleMessage 4000 ''654321'' ?msg ?r =
             sendMessage ''telegram'' ''chat1''
               (TooManyAttempts (getBlockTimeRemaining 4000 ''telegram'' ''chat1'' ?s3)) ?r"
    using T late r by blast
  have lock: "map_of (blockedUsers ?s3) (makeKey ''telegram'' ''chat1'') = Some \<lparr>until = 3000 + BLOCK_DURATION_MS\<rparr>"
    using T by blast
  have "getBlockTimeRemaining 4000 ''telegram'' ''chat1'' ?s3 = 5"
    using remaining_some [OF lock, of 4000 5] by (simp add: BLOCK_DURATION_MS_def)
  with T late h show ?thesis by simp
qed

section \<open>Delivery to the consumer\<close>

lemma fold_deliver_queue:
  "waitingResolver r = None \<Longrightarrow> fold deliver ms r = r\<lparr>messageQueue := messageQueue r @ ms\<rparr>"
proof (induction ms arbitrary: r)
  case Nil
  then show ?case by simp
next
  case (Cons m ms)
  then have "deliver m r = r\<lparr>messageQueue := messageQueue r @ [m]\<rparr>" by (simp add: deliver_def)
  with Cons show ?case by simp
qed

lemma waitForMessages_drains:
  "length ps = length (messageQueue r) \<Longrightarrow>
     waitForMessages ps r = (map Some (messageQueue r), r\<lparr>messageQueue := []\<rparr>)"
proof (induction ps arbitrary: r)
  case Nil
  then show ?case by simp
next
  case (Cons p ps)
  then obtain m rest where q: "messageQueue r = m # rest" by (cases "messageQueue r") auto
  then have w: "waitForMessage p r = (Some m, r\<lparr>messageQueue := rest\<rparr>)"
    by (simp add: waitForMessage_def)
  have "length ps = length (messageQueue (r\<lparr>messageQueue := rest\<rparr>))" using Cons.prems q by simp
  from Cons.IH [OF this] w q show ?case by simp
qed

lemma handleAdminCommand_not_command:
  "fst (handleAdminCommand now msg r) = False \<Longrightarrow> handleAdminCommand now msg r = (False, r)"
  by (auto simp: handleAdminCommand_def Let_def split: if_splits option.splits list.splits prod.splits)

text \<open>
  Claim C8. Delivery is a single-waiter rendezvous in arrival order. A message delivered
  while a waiter is registered is handed to that waiter and the registration is cleared;
  with no waiter it goes to the end of the queue. \<open>waitForMessage\<close> returns the oldest
  queued message and registers nothing; only on an empty queue does it register a waiter.
  So messages delivered with no waiter come out of successive \<open>waitForMessage\<close> calls in
  the order of their arrival, after those already queued. The router delivers in this
  way an allowed group message and a message in an authenticated direct chat that is not
  an admin command.
\<close>

theorem delivery_is_fifo_rendezvous:
  "(\<forall>p. waitingResolver r = Some p \<longrightarrow>
        deliver msg r = r\<lparr>resolved := resolved r @ [(p, msg)], waitingResolver := None\<rparr>)
   \<and> (waitingResolver r = None \<longrightarrow> deliver msg r = r\<lparr>messageQueue := messageQueue r @ [msg]\<rparr>)
   \<and> (\<forall>m rest. messageQueue r = m # rest \<longrightarrow>
        waitForMessage q r = (Some m, r\<lparr>messageQueue := rest\<rparr>))
   \<and> (messageQueue r = [] \<longrightarrow> waitForMessage q r = (None, r\<lparr>waitingResolver := Some q\<rparr>))
   \<and> (waitingResolver r = None \<and> length ps = length (messageQueue r @ ms) \<longrightarrow>
        waitForMessages ps (fold deliver ms r)
          = (map Some (messageQueue r @ ms), r\<lparr>messageQueue := []\<rparr>))
   \<and> (transport msg \<in> set (transports r)
        \<and> isBlocked now (transport msg) (chatId msg) (challengeAuth r) = (False, a)
        \<and> \<not> isDM msg
        \<and> canRespondTo msg (trackChannel (transport msg) (chatId msg) (channelName msg) a) = Allowed
      \<longrightarrow> handleMessage now code msg r
            = deliver msg
                (r\<lparr>challengeAuth := trackChannel (transport msg) (chatId msg) (channelName msg) a\<rparr>))
   \<and> (transport msg \<in> set (transports r)
        \<and> isBlocked now (transport msg) (chatId msg) (challengeAuth r) = (False, a)
        \<and> isDM msg \<and> isAuthenticated (transport msg) (chatId msg) a
        \<and> fst (handleAdminCommand now msg (r\<lparr>challengeAuth := a\<rparr>)) = False
      \<longrightarrow> handleMessage now code msg r = deliver msg (r\<lparr>challengeAuth := a\<rparr>))"
proof (intro conjI allI impI)
  fix p assume "waitingResolver r = Some p"
  then show "deliver msg r = r\<lparr>resolved := resolved r @ [(p, msg)], waitingResolver := None\<rparr>"
    by (simp add: deliver_def)
next
  assume "waitingResolver r = None"
  then show "deliver msg r = r\<lparr>messageQueue := messageQueue r @ [msg]\<rparr>"
    by (simp add: deliver_def)
next
  fix m rest assume "messageQueue r = m # rest"
  then show "waitForMessage q r = (Some m, r\<lparr>messageQueue := rest\<rparr>)"
    by (simp add: waitForMessage_def)
next
  assume "messageQueue r = []"
  then show "waitForMessage q r = (None, r\<lparr>waitingResolver := Some q\<rparr>)"
    by (simp add: waitForMessage_def)
next
  assume h: "waitingResolver r = None \<and> length ps = length (messageQueue r @ ms)"
  then have f: "fold deliver ms r = r\<lparr>messageQueue := messageQueue r @ ms\<rparr>"
    by (simp add: fold_deliver_queue)
  have "length ps = length (messageQueue (r\<lparr>messageQueue := messageQueue r @ ms\<rparr>))"
    using h by simp
  from waitForMessages_drains [OF this] f
  show "waitForMessages ps (fold deliver ms r) = (map Some (messageQueue r @ ms), r\<lparr>messageQueue := []\<rparr>)"
    by simp
next
  assume "transport msg \<in> set (transports r)
        \<and> isBlocked now (transport msg) (chatId msg) (challengeAuth r) = (False, a)
        \<and> \<not> isDM msg
        \<and> canRespondTo msg (trackChannel (transport msg) (chatId msg) (channelName msg) a) = Allowed"
  then show "handleMessage now code msg r
            = deliver msg
                (r\<lparr>challengeAuth := trackChannel (transport msg) (chatId msg) (channelName msg) a\<rparr>)"
    by (simp add: handleMessage_def Let_def)
next
  assume h: "transport msg \<in> set (transports r)
        \<and> isBlocked now (transport msg) (chatId msg) (challengeAuth r) = (False, a)
        \<and> isDM msg \<and> isAuthenticated (transport msg) (chatId msg) a
        \<and> fst (handleAdminCommand now msg (r\<lparr>challengeAuth := a\<rparr>)) = False"
  then have "handleAdminCommand now msg (r\<lparr>challengeAuth := a\<rparr>) = (False, r\<lparr>challengeAuth := a\<rparr>)"
    by (simp add: handleAdminCommand_not_command)
  with h show "handleMessage now code msg r = deliver msg (r\<lparr>challengeAuth := a\<rparr>)"
    by (simp add: handleMessage_def Let_def)
qed

theorem delivery_is_fifo_rendezvous_witness:
  "handleMessage 1000 ''123456'' (exampleMsg ''general'' ''carol'' False None ''one'') exampleRouter
     = deliver (exampleMsg ''general'' ''carol'' False None ''one'')
         (exampleRouter\<lparr>challengeAuth := trackChannel ''telegram'' ''general'' None exampleAuth\<rparr>)
   \<and> handleMessage 1000 ''123456'' (exampleMsg ''dm1'' ''alice'' True None ''fix the build'') exampleRouter
     = deliver (exampleMsg ''dm1'' ''alice'' True None ''fix the build'')
         (exampleRouter\<lparr>challengeAuth := exampleAuth\<rparr>)
   \<and> messageQueue (deliver (exampleMsg ''general'' ''carol'' False None ''one'') exampleRouter)
       = [exampleMsg ''general'' ''carol'' False None ''one'']
   \<and> waitForMessage 7 exampleRouter = (None, exampleRouter\<lparr>waitingResolver := Some 7\<rparr>)
   \<and> deliver (exampleMsg ''general'' ''carol'' False None ''one'')
        (exampleRouter\<lparr>waitingResolver := Some 7\<rparr>)
       = exampleRouter\<lparr>waitingResolver := Some 7\<rparr>
           \<lparr>resolved := [(7, exampleMsg ''general'' ''carol'' False None ''one'')],
            waitingResolver := None\<rparr>
   \<and> waitForMessage 8 (deliver (exampleMsg ''general'' ''carol'' False None ''one'') exampleRouter)
       = (Some (exampleMsg ''general'' ''carol'' False None ''one''), exampleRouter)
   \<and> waitForMessages [8, 9]
        (fold deliver [exampleMsg ''general'' ''carol'' False None ''one'',
                       exampleMsg ''dm1'' ''alice'' True None ''two''] exampleRouter)
       = ([Some (exampleMsg ''general'' ''carol'' False None ''one''),
           Some (exampleMsg ''dm1'' ''alice'' True None ''two'')], exampleRouter)"
proof -
  let ?g = "exampleMsg ''general'' ''carol'' False None ''one''"
  let ?d = "exampleMsg ''dm1'' ''alice'' True None ''fix the build''"
  let ?two = "exampleMsg ''dm1'' ''alice'' True None ''two''"
  let ?w = "exampleRouter\<lparr>waitingResolver := Some 7\<rparr>"
  have idle: "waitingResolver exampleRouter = None \<and> messageQueue exampleRouter = []
              \<and> resolved exampleRouter = []"
    by (simp add: exampleRouter_def register_def newTransportManager_def)
  have same: "exampleRouter\<lparr>messageQueue := []\<rparr> = exampleRouter"
    by (simp add: exampleRouter_def register_def newTransportManager_def)
  have g: "transport ?g \<in> set (transports exampleRouter)
       \<and> isBlocked 1000 (transport ?g) (chatId ?g) (challengeAuth exampleRouter) = (False, exampleAuth)
       \<and> \<not> isDM ?g
       \<and> canRespondTo ?g (trackChannel (transport ?g) (chatId ?g) (channelName ?g) exampleAuth) = Allowed"
    by (simp add: example_defs exampleRouter_def register_def newTransportManager_def isBlocked_def
          trackChannel_def canRespondTo_def getChannelAuth_def)
  have notCommand: "fst (handleAdminCommand 1000 ?d (exampleRouter\<lparr>challengeAuth := exampleAuth\<rparr>)) = False"
    by code_simp
  have d: "transport ?d \<in> set (transports exampleRouter)
       \<and> isBlocked 1000 (transport ?d) (chatId ?d) (challengeAuth exampleRouter) = (False, exampleAuth)
       \<and> isDM ?d \<and> isAuthenticated (transport ?d) (chatId ?d) exampleAuth"
    by (simp add: example_defs exampleRouter_def register_def newTransportManager_def isBlocked_def
          isAuthenticated_def)
  have fields: "transport ?g = ''telegram'' \<and> chatId ?g = ''general'' \<and> channelName ?g = None"
    by (simp add: exampleMsg_def)
  have A: "handleMessage 1000 ''123456'' ?g exampleRouter
             = deliver ?g (exampleRouter\<lparr>challengeAuth := trackChannel ''telegram'' ''general'' None exampleAuth\<rparr>)"
    using delivery_is_fifo_rendezvous [where r = exampleRouter and msg = ?g and now = 1000
            and code = "''123456''" and a = exampleAuth] g fields
    by simp
  have B: "handleMessage 1000 ''123456'' ?d exampleRouter = deliver ?d (exampleRouter\<lparr>challengeAuth := exampleAuth\<rparr>)"
    using delivery_is_fifo_rendezvous [where r = exampleRouter and msg = ?d and now = 1000
            and code = "''123456''" and a = exampleAuth] d notCommand
    by blast
  have C: "deliver ?g exampleRouter = exampleRouter\<lparr>messageQueue := [?g]\<rparr>"
    using delivery_is_fifo_rendezvous [where r = exampleRouter and msg = ?g] idle by simp
  have D: "waitForMessage 7 exampleRouter = (None, ?w)"
    using delivery_is_fifo_rendezvous [where r = exampleRouter and q = 7] idle by simp
  have E: "deliver ?g ?w = ?w\<lparr>resolved := [(7, ?g)], waitingResolver := None\<rparr>"
    using delivery_is_fifo_rendezvous [where r = ?w and msg = ?g] idle by simp
  have F: "waitForMessage 8 (deliver ?g exampleRouter) = (Some ?g, exampleRouter)"
    using delivery_is_fifo_rendezvous [where r = "exampleRouter\<lparr>messageQueue := [?g]\<rparr>" and q = 8]
      C same by simp
  have len: "waitingResolver exampleRouter = None
             \<and> length [8, 9 :: nat] = length (messageQueue exampleRouter @ [?g, ?two])"
    using idle by simp
  have "waitForMessages [8, 9] (fold deliver [?g, ?two] exampleRouter)
          = (map Some (messageQueue exampleRouter @ [?g, ?two]), exampleRouter\<lparr>messageQueue := []\<rparr>)"
    using delivery_is_fifo_rendezvous [where r = exampleRouter and ps = "[8, 9]" and ms = "[?g, ?two]"]
      len by blast
  then have G: "waitForMessages [8, 9] (fold deliver [?g, ?two] exampleRouter)
                  = ([Some ?g, Some ?two], exampleRouter)"
    using idle same by simp
  from A B C D E F G show ?thesis by simp
qed

section \<open>A trusted sender in a chat that is not authenticated\<close>

text \<open>
  Claim C7 says that the router treats a direct message from a trusted sender as an
  authenticated direct message even when the chat is not marked authenticated. The
  router's test is \<open>isAuthenticated\<close> of the chat alone. Bob is trusted on Telegram and writes
  \<open>help\<close> from the chat \<open>dm7\<close>, which is not authenticated: \<open>canRespondTo\<close> allows the message,
  but the router neither runs the admin command nor delivers the message; it creates a
  challenge for \<open>dm7\<close> and sends the authentication prompt.
\<close>

theorem trusted_sender_in_unauthenticated_chat_is_challenged:
  "isUserTrusted ''telegram'' ''bob'' exampleAuth
   \<and> \<not> isAuthenticated ''telegram'' ''dm7'' exampleAuth
   \<and> fst (isBlocked 1000 ''telegram'' ''dm7'' exampleAuth) = False
   \<and> canRespondTo (exampleMsg ''dm7'' ''bob'' True None ''help'') exampleAuth = Allowed
   \<and> handleMessage 1000 ''123456'' (exampleMsg ''dm7'' ''bob'' True None ''help'') exampleRouter
       = sendMessage ''telegram'' ''dm7'' AuthenticationRequired
           (exampleRouter\<lparr>challengeAuth :=
              snd (createChallenge 1000 ''123456'' ''telegram'' ''dm7'' ''bob'' exampleAuth)\<rparr>)
   \<and> messageQueue (handleMessage 1000 ''123456'' (exampleMsg ''dm7'' ''bob'' True None ''help'')
        exampleRouter) = []
   \<and> sent (handleMessage 1000 ''123456'' (exampleMsg ''dm7'' ''bob'' True None ''help'')
        exampleRouter) = [(''telegram'', ''dm7'', AuthenticationRequired)]"
  by (simp add: example_defs exampleRouter_def register_def newTransportManager_def
        isUserTrusted_def isAuthenticated_def isBlocked_def canRespondTo_def handleMessage_def
        hasPendingChallenge_def createChallenge_def sendMessage_def orElse_def)

end
